theory Spec2Isabelle
  imports Main "HOL-Library.Word"
begin

section \<open>JavaScript strings\<close>

text \<open>
  A JavaScript string is a sequence of UTF-16 code units. String literals of the
  sources are ASCII and are written \<open>js ''...''\<close>.
\<close>

type_synonym jschar = "16 word"
type_synonym jsstring = "jschar list"

definition js :: "string \<Rightarrow> jsstring" where
  "js s = map of_char s"

text \<open>
  \<open>String.prototype.trim\<close> strips WhiteSpace and LineTerminator code units from
  both ends: TAB, LF, VT, FF, CR, SP, NBSP, the Unicode space separators and the
  byte order mark.
\<close>

definition is_js_whitespace :: "jschar \<Rightarrow> bool" where
  "is_js_whitespace c \<longleftrightarrow>
     c = 0x09 \<or> c = 0x0A \<or> c = 0x0B \<or> c = 0x0C \<or> c = 0x0D \<or> c = 0x20 \<or> c = 0xA0
     \<or> c = 0x1680 \<or> (0x2000 \<le> c \<and> c \<le> 0x200A) \<or> c = 0x2028 \<or> c = 0x2029
     \<or> c = 0x202F \<or> c = 0x205F \<or> c = 0x3000 \<or> c = 0xFEFF"

definition trim :: "jsstring \<Rightarrow> jsstring" where
  "trim s = rev (dropWhile is_js_whitespace (rev (dropWhile is_js_whitespace s)))"

text \<open>The decimal digits of a natural number.\<close>

fun decimal :: "nat \<Rightarrow> jsstring" where
  "decimal n = (if n < 10 then [of_nat (48 + n)]
                else decimal (n div 10) @ [of_nat (48 + n mod 10)])"

declare decimal.simps [simp del]

section \<open>JavaScript numbers\<close>

text \<open>
  A Number is an IEEE 754 double: NaN, an infinity, or a finite value with a sign.
  \<open>Decimal negative d t\<close> stands for the double nearest to \<open>d * 10^t\<close> (ties to the
  even mantissa), with the sign \<open>negative\<close>; it is an infinity when \<open>d * 10^t\<close> is too
  large for a finite double, and a zero when it is too small. Every finite double has
  this form exactly, since \<open>2^(-k) = 5^k * 10^(-k)\<close>, and a JSON number literal has it
  as written. \<open>Infinity True\<close> is the negative infinity.
\<close>

datatype number = NaN | Infinity bool | Decimal bool nat int

text \<open>The Number of an integer literal of the source, or of a length.\<close>

definition Number :: "int \<Rightarrow> number" where
  "Number n = Decimal (n < 0) (nat \<bar>n\<bar>) 0"

subsection \<open>Rounding a decimal to a double\<close>

text \<open>
  The magnitude of a double: zero, \<open>m * 2^e\<close> with \<open>2^52 \<le> m < 2^53\<close> and
  \<open>-1074 \<le> e \<le> 971\<close> (normal) or \<open>0 < m < 2^52\<close> and \<open>e = -1074\<close> (subnormal),
  or beyond the largest finite double.
\<close>

datatype double = Zero | Finite nat int | Overflow

text \<open>The number of binary and of decimal digits of a natural number.\<close>

fun bits :: "nat \<Rightarrow> nat" where
  "bits n = (if n = 0 then 0 else Suc (bits (n div 2)))"

fun digits10 :: "nat \<Rightarrow> nat" where
  "digits10 n = (if n < 10 then 1 else Suc (digits10 (n div 10)))"

declare bits.simps [simp del] digits10.simps [simp del]

text \<open>
  Exact positive values are fractions \<open>(N, D)\<close> of natural numbers. \<open>scale f b j\<close> is
  \<open>f / b^j\<close>; \<open>floor_log2\<close> and \<open>floor_log10\<close> give the integer \<open>l\<close> with
  \<open>b^l \<le> f < b^(l + 1)\<close>, which the digit counts fix up to one.
\<close>

type_synonym fraction = "nat \<times> nat"

definition decimal_fraction :: "nat \<Rightarrow> int \<Rightarrow> fraction" where
  "decimal_fraction d t = (if 0 \<le> t then (d * 10 ^ nat t, 1) else (d, 10 ^ nat (- t)))"

definition binary_fraction :: "nat \<Rightarrow> int \<Rightarrow> fraction" where
  "binary_fraction m e = (if 0 \<le> e then (m * 2 ^ nat e, 1) else (m, 2 ^ nat (- e)))"

definition scale :: "fraction \<Rightarrow> nat \<Rightarrow> int \<Rightarrow> fraction" where
  "scale f b j =
     (case f of (N, D) \<Rightarrow> if 0 \<le> j then (N, D * b ^ nat j) else (N * b ^ nat (- j), D))"

definition at_least_one :: "fraction \<Rightarrow> bool" where
  "at_least_one f = (case f of (N, D) \<Rightarrow> D \<le> N)"

definition floor_log2 :: "fraction \<Rightarrow> int" where
  "floor_log2 f =
     (case f of (N, D) \<Rightarrow>
        let d = int (bits N) - int (bits D)
        in if at_least_one (scale f 2 d) then d else d - 1)"

definition floor_log10 :: "fraction \<Rightarrow> int" where
  "floor_log10 f =
     (case f of (N, D) \<Rightarrow>
        let d = int (digits10 N) - int (digits10 D)
        in if at_least_one (scale f 10 d) then d else d - 1)"

definition round_half_even :: "fraction \<Rightarrow> nat" where
  "round_half_even f =
     (case f of (N, D) \<Rightarrow>
        let q = N div D; r = N mod D
        in if 2 * r < D then q
           else if D < 2 * r then q + 1
           else if even q then q else q + 1)"

text \<open>
  \<open>to_double d t\<close> is the double nearest to \<open>d * 10^t\<close>: the value is cut to 53
  significant bits, or to a multiple of \<open>2^(-1074)\<close> where it is subnormal, and
  rounded half to even.
\<close>

definition to_double :: "nat \<Rightarrow> int \<Rightarrow> double" where
  "to_double d t =
     (if d = 0 then Zero
      else
        let f = decimal_fraction d t;
            e = max (floor_log2 f - 52) (- 1074);
            m = round_half_even (scale f 2 e);
            (m, e) = (if m = 2 ^ 53 then (2 ^ 52, e + 1) else (m, e))
        in if m = 0 then Zero
           else if 971 < e then Overflow
           else Finite m e)"

definition ToBoolean :: "number \<Rightarrow> bool" where
  "ToBoolean x =
     (case x of
        NaN \<Rightarrow> False
      | Infinity negative \<Rightarrow> True
      | Decimal negative d t \<Rightarrow> to_double d t \<noteq> Zero)"

definition isFinite :: "number \<Rightarrow> bool" where
  "isFinite x =
     (case x of
        NaN \<Rightarrow> False
      | Infinity negative \<Rightarrow> False
      | Decimal negative d t \<Rightarrow> to_double d t \<noteq> Overflow)"

subsection \<open>\<open>Number.prototype.toString\<close>\<close>

text \<open>
  The digits of a finite double \<open>m * 2^e\<close> are those of the shortest decimal
  \<open>s * 10^j\<close> that rounds to it and, among the decimals of that length, of the one
  nearest to it (the even one on a tie), as the engines print. \<open>settle\<close> decides a
  precision \<open>p\<close> from the two decimals of \<open>p\<close> digits around the value: \<open>s\<close> below it
  with remainder \<open>r / Q\<close>, and \<open>s + 1\<close> above.
\<close>

definition settle ::
  "nat \<Rightarrow> int \<Rightarrow> int \<Rightarrow> nat \<Rightarrow> nat \<Rightarrow> nat \<Rightarrow> (nat \<times> int) option" where
  "settle m e j s r Q =
     (if to_double s j = Finite m e \<and> to_double (s + 1) j = Finite m e then
        Some (if 2 * r < Q then s
              else if Q < 2 * r then s + 1
              else if even s then s else s + 1, j)
      else if to_double s j = Finite m e then Some (s, j)
      else if to_double (s + 1) j = Finite m e then Some (s + 1, j)
      else None)"

definition candidate :: "nat \<Rightarrow> int \<Rightarrow> nat \<Rightarrow> (nat \<times> int) option" where
  "candidate m e p =
     (let f = binary_fraction m e;
          j = floor_log10 f + 1 - int p;
          (P, Q) = scale f 10 j
      in settle m e j (P div Q) (P mod Q) Q)"

text \<open>
  The search starts at one digit. Seventeen digits identify a double, so it ends
  before the precisions run out; the first equation only makes the function total.
\<close>

fun shortest_from :: "nat \<Rightarrow> nat \<Rightarrow> nat \<Rightarrow> int \<Rightarrow> nat \<times> int" where
  "shortest_from 0 p m e =
     (let f = binary_fraction m e; j = floor_log10 f + 1 - int p
      in (round_half_even (scale f 10 j), j))"
| "shortest_from (Suc precisions) p m e =
     (case candidate m e p of
        Some c \<Rightarrow> c
      | None \<Rightarrow> shortest_from precisions (Suc p) m e)"

fun strip_zeros :: "nat \<Rightarrow> int \<Rightarrow> nat \<times> int" where
  "strip_zeros s j = (if s \<noteq> 0 \<and> s mod 10 = 0 then strip_zeros (s div 10) (j + 1) else (s, j))"

declare strip_zeros.simps [simp del]

definition shortest :: "nat \<Rightarrow> int \<Rightarrow> nat \<times> int" where
  "shortest m e = (case shortest_from 17 1 m e of (s, j) \<Rightarrow> strip_zeros s j)"

text \<open>
  The layout of the \<open>k\<close> digits of \<open>s\<close>, where \<open>n = k + j\<close> is the position of the
  decimal point: plain digits up to \<open>10^21\<close>, a leading \<open>0.\<close> down to \<open>10^(-6)\<close>, the
  exponent form otherwise.
\<close>

definition format_digits :: "nat \<Rightarrow> int \<Rightarrow> jsstring" where
  "format_digits s j =
     (let ds = decimal s; k = int (length ds); n = k + j
      in if k \<le> n \<and> n \<le> 21 then ds @ replicate (nat (n - k)) 0x30
         else if 0 < n \<and> n \<le> 21 then take (nat n) ds @ [0x2E] @ drop (nat n) ds
         else if - 6 < n \<and> n \<le> 0 then [0x30, 0x2E] @ replicate (nat (- n)) 0x30 @ ds
         else
           (if k = 1 then ds else take 1 ds @ [0x2E] @ drop 1 ds)
           @ [0x65, if n - 1 < 0 then 0x2D else 0x2B] @ decimal (nat \<bar>n - 1\<bar>))"

definition Number_toString :: "number \<Rightarrow> jsstring" where
  "Number_toString x =
     (case x of
        NaN \<Rightarrow> js ''NaN''
      | Infinity negative \<Rightarrow> (if negative then js ''-Infinity'' else js ''Infinity'')
      | Decimal negative d t \<Rightarrow>
          (case to_double d t of
             Zero \<Rightarrow> js ''0''
           | Overflow \<Rightarrow> (if negative then js ''-Infinity'' else js ''Infinity'')
           | Finite m e \<Rightarrow>
               (if negative then [0x2D] else [])
               @ (case shortest m e of (s, j) \<Rightarrow> format_digits s j)))"

section \<open>JSON values, \<open>JSON.parse\<close> and \<open>JSON.stringify\<close>\<close>

text \<open>
  The value of a JSON text. An object keeps its members in creation order.
\<close>

datatype json =
    JNull
  | JBool bool
  | JNum number
  | JStr jsstring
  | JArr "json list"
  | JObj "(jsstring \<times> json) list"

datatype js_error =
    Error jsstring   \<comment> \<open>\<open>new Error(message)\<close>\<close>
  | SyntaxError      \<comment> \<open>raised by a JSON decoder; the message is the engine's\<close>
  | TypeError        \<comment> \<open>raised by \<open>fetch\<close> on a network failure; the message is the engine's\<close>

subsection \<open>Tokens\<close>

datatype token =
    TLBrace | TRBrace | TLBrack | TRBrack | TColon | TComma
  | TString jsstring | TNumber json | TTrue | TFalse | TNull

definition is_json_whitespace :: "jschar \<Rightarrow> bool" where
  "is_json_whitespace c \<longleftrightarrow> c = 0x20 \<or> c = 0x09 \<or> c = 0x0A \<or> c = 0x0D"

definition is_digit :: "jschar \<Rightarrow> bool" where
  "is_digit c \<longleftrightarrow> 0x30 \<le> c \<and> c \<le> 0x39"

definition hex_value :: "jschar \<Rightarrow> nat option" where
  "hex_value c =
     (if 0x30 \<le> c \<and> c \<le> 0x39 then Some (unat c - 0x30)
      else if 0x41 \<le> c \<and> c \<le> 0x46 then Some (unat c - 0x41 + 10)
      else if 0x61 \<le> c \<and> c \<le> 0x66 then Some (unat c - 0x61 + 10)
      else None)"

definition hex4 :: "jschar \<Rightarrow> jschar \<Rightarrow> jschar \<Rightarrow> jschar \<Rightarrow> jschar option" where
  "hex4 a b c d =
     (case (hex_value a, hex_value b, hex_value c, hex_value d) of
        (Some h3, Some h2, Some h1, Some h0) \<Rightarrow> Some (of_nat (((h3 * 16 + h2) * 16 + h1) * 16 + h0))
      | _ \<Rightarrow> None)"

text \<open>The single-character escapes: \<open>\" \\ \/ \b \f \n \r \t\<close>.\<close>

definition unescape :: "jschar \<Rightarrow> jschar option" where
  "unescape e =
     (if e = 0x22 then Some 0x22 else if e = 0x5C then Some 0x5C
      else if e = 0x2F then Some 0x2F else if e = 0x62 then Some 0x08
      else if e = 0x66 then Some 0x0C else if e = 0x6E then Some 0x0A
      else if e = 0x72 then Some 0x0D else if e = 0x74 then Some 0x09
      else None)"

text \<open>
  \<open>lex_string acc cs\<close> reads a string body after its opening quote: it returns the
  decoded string and the input after the closing quote.
\<close>

fun lex_string :: "jsstring \<Rightarrow> jsstring \<Rightarrow> (jsstring \<times> jsstring) option" where
  "lex_string acc [] = None"
| "lex_string acc (c # cs) =
     (if c = 0x22 then Some (rev acc, cs)
      else if c = 0x5C then
        (case cs of
           [] \<Rightarrow> None
         | e # es \<Rightarrow>
             if e = 0x75 then
               (case es of
                  a # b # c # d # rest \<Rightarrow>
                    (case hex4 a b c d of
                       Some u \<Rightarrow> lex_string (u # acc) rest
                     | None \<Rightarrow> None)
                | _ \<Rightarrow> None)
             else
               (case unescape e of
                  Some u \<Rightarrow> lex_string (u # acc) es
                | None \<Rightarrow> None))
      else if c < 0x20 then None
      else lex_string (c # acc) cs)"

definition digits_value :: "jsstring \<Rightarrow> nat" where
  "digits_value ds = foldl (\<lambda>n d. 10 * n + (unat d - 0x30)) 0 ds"

text \<open>
  \<open>lex_number cs\<close> reads
  \<open>-? (0 | [1-9][0-9]*) (. [0-9]+)? ([eE] [+-]? [0-9]+)?\<close> at the head of \<open>cs\<close>: the
  integer part \<open>ip\<close>, the fraction \<open>fp\<close> with its point, the exponent \<open>ep\<close> with its
  letter and sign. The value is the digits of \<open>ip\<close> and \<open>fp\<close> as one integer, times ten
  to the exponent less the number of fraction digits.
\<close>

definition int_part :: "jsstring \<Rightarrow> jsstring" where
  "int_part cs =
     (case cs of [] \<Rightarrow> []
      | d # _ \<Rightarrow> if d = 0x30 then [d] else takeWhile is_digit cs)"

definition frac_part :: "jsstring \<Rightarrow> jsstring" where
  "frac_part cs =
     (case cs of [] \<Rightarrow> []
      | p # r \<Rightarrow> if p = 0x2E then p # takeWhile is_digit r else [])"

definition exp_part :: "jsstring \<Rightarrow> jsstring" where
  "exp_part cs =
     (case cs of [] \<Rightarrow> []
      | e # r \<Rightarrow>
          if e = 0x65 \<or> e = 0x45 then
            (case r of [] \<Rightarrow> [e]
             | s # r' \<Rightarrow>
                 if s = 0x2B \<or> s = 0x2D then e # s # takeWhile is_digit r'
                 else e # takeWhile is_digit r)
          else [])"

definition exponent_value :: "jsstring \<Rightarrow> int" where
  "exponent_value ep =
     (case ep of
        [] \<Rightarrow> 0
      | e # rest \<Rightarrow>
          (case rest of
             [] \<Rightarrow> 0
           | s # ds \<Rightarrow>
               if s = 0x2D then - int (digits_value ds)
               else if s = 0x2B then int (digits_value ds)
               else int (digits_value rest)))"

definition lex_number :: "jsstring \<Rightarrow> (json \<times> jsstring) option" where
  "lex_number cs =
     (let neg = (case cs of [] \<Rightarrow> False | c # _ \<Rightarrow> c = 0x2D);
          r0 = (if neg then tl cs else cs);
          ip = int_part r0;
          r1 = drop (length ip) r0;
          fp = frac_part r1;
          r2 = drop (length fp) r1;
          ep = exp_part r2;
          r3 = drop (length ep) r2;
          d = digits_value (ip @ tl fp);
          t = exponent_value ep - int (length (tl fp))
      in if ip = [] then None
         else if fp \<noteq> [] \<and> length fp < 2 then None
         else if ep \<noteq> [] \<and> \<not> is_digit (last ep) then None
         else Some (JNum (Decimal neg d t), r3))"

lemma lex_string_shorter:
  "lex_string acc cs = Some (s, rest) \<Longrightarrow> length rest < length cs"
proof (induction acc cs rule: lex_string.induct)
  case (1 acc)
  then show ?case by simp
next
  case (2 acc c cs)
  show ?case
  proof (cases "c = 0x22")
    case True
    with "2.prems" show ?thesis by simp
  next
    case nq: False
    show ?thesis
    proof (cases "c = 0x5C")
      case bs: True
      with "2.prems" nq obtain e es where cs: "cs = e # es"
        by (cases cs) auto
      show ?thesis
      proof (cases "e = 0x75")
        case u: True
        from "2.prems" nq bs cs u obtain a b c' d r v
          where es: "es = a # b # c' # d # r" and h: "hex4 a b c' d = Some v"
            and rec: "lex_string (v # acc) r = Some (s, rest)"
          by (simp split: list.splits option.splits)
        from "2.IH"(1) [OF nq bs cs u es refl refl refl h rec] show ?thesis
          by (simp add: cs es)
      next
        case nu: False
        from "2.prems" nq bs cs nu obtain v
          where h: "unescape e = Some v" and rec: "lex_string (v # acc) es = Some (s, rest)"
          by (simp split: option.splits)
        from "2.IH"(2) [OF nq bs cs nu h rec] show ?thesis
          by (simp add: cs)
      qed
    next
      case nb: False
      with "2.prems" nq have c: "\<not> c < 0x20" and rec: "lex_string (c # acc) cs = Some (s, rest)"
        by (simp_all split: if_splits)
      from "2.IH"(3) [OF nq nb c rec] show ?thesis by simp
    qed
  qed
qed

lemma length_int_part: "length (int_part cs) \<le> length cs"
  by (simp add: int_part_def length_takeWhile_le split: list.splits)

lemma lex_number_shorter:
  assumes "lex_number cs = Some (v, rest)"
  shows "length rest < length cs"
proof -
  let ?r0 = "if (case cs of [] \<Rightarrow> False | c # _ \<Rightarrow> c = 0x2D) then tl cs else cs"
  from assms have ip: "int_part ?r0 \<noteq> []"
    and rest: "length rest \<le> length (drop (length (int_part ?r0)) ?r0)"
    by (auto simp: lex_number_def Let_def split: if_split_asm)
  from ip length_int_part [of ?r0]
  have "length (drop (length (int_part ?r0)) ?r0) < length ?r0"
    by (cases "int_part ?r0") auto
  moreover have "length ?r0 \<le> length cs"
    by simp
  ultimately show ?thesis using rest by linarith
qed

text \<open>The tokens of a JSON text; \<open>None\<close> when a character starts no token.\<close>

function tokenize :: "jsstring \<Rightarrow> token list option" where
  "tokenize [] = Some []"
| "tokenize (c # cs) =
     (if is_json_whitespace c then tokenize cs
      else if c = 0x7B then map_option ((#) TLBrace) (tokenize cs)
      else if c = 0x7D then map_option ((#) TRBrace) (tokenize cs)
      else if c = 0x5B then map_option ((#) TLBrack) (tokenize cs)
      else if c = 0x5D then map_option ((#) TRBrack) (tokenize cs)
      else if c = 0x3A then map_option ((#) TColon) (tokenize cs)
      else if c = 0x2C then map_option ((#) TComma) (tokenize cs)
      else if c = 0x22 then
        (case lex_string [] cs of
           None \<Rightarrow> None
         | Some (s, rest) \<Rightarrow> map_option ((#) (TString s)) (tokenize rest))
      else if take 4 (c # cs) = js ''true'' then map_option ((#) TTrue) (tokenize (drop 3 cs))
      else if take 5 (c # cs) = js ''false'' then map_option ((#) TFalse) (tokenize (drop 4 cs))
      else if take 4 (c # cs) = js ''null'' then map_option ((#) TNull) (tokenize (drop 3 cs))
      else
        (case lex_number (c # cs) of
           None \<Rightarrow> None
         | Some (v, rest) \<Rightarrow> map_option ((#) (TNumber v)) (tokenize rest)))"
  by pat_completeness auto
termination
proof (relation "measure length", goal_cases)
  case 1
  show ?case by simp
next
  case (9 c cs p s rest)
  then show ?case
    using lex_string_shorter [of "[]" cs s rest] by simp
next
  case (13 c cs p v rest)
  then show ?case
    using lex_number_shorter [of "c # cs" v rest] by simp
qed simp_all

declare tokenize.simps [simp del]

subsection \<open>\<open>JSON.parse\<close>\<close>

text \<open>
  \<open>put ms k v\<close> defines property \<open>k\<close> of an object under construction: a repeated
  key keeps its first position and takes the later value.
\<close>

fun put :: "(jsstring \<times> json) list \<Rightarrow> jsstring \<Rightarrow> json \<Rightarrow> (jsstring \<times> json) list" where
  "put [] k v = [(k, v)]"
| "put ((k', v') # ms) k v = (if k' = k then (k, v) # ms else (k', v') # put ms k v)"

text \<open>
  The parser reads the tokens from left to right with a stack of the containers that
  are still open: \<open>FArr es\<close> is an array with elements \<open>es\<close> waiting for its next
  element, \<open>FObj ms k\<close> an object with members \<open>ms\<close> waiting for the value of key \<open>k\<close>.
\<close>

datatype frame = FArr "json list" | FObj "(jsstring \<times> json) list" jsstring

datatype pstate =
    SValue "frame list"                                \<comment> \<open>a value is expected\<close>
  | SArrFirst "frame list"                             \<comment> \<open>after \<open>[\<close>: a value or \<open>]\<close>\<close>
  | SArrNext "json list" "frame list"                  \<comment> \<open>after an element: \<open>,\<close> or \<open>]\<close>\<close>
  | SObjFirst "frame list"                             \<comment> \<open>after \<open>{\<close>: a key or \<open>}\<close>\<close>
  | SKey "(jsstring \<times> json) list" "frame list"         \<comment> \<open>after \<open>,\<close> in an object: a key\<close>
  | SColon "(jsstring \<times> json) list" jsstring "frame list" \<comment> \<open>after a key: \<open>:\<close>\<close>
  | SObjNext "(jsstring \<times> json) list" "frame list"     \<comment> \<open>after a member: \<open>,\<close> or \<open>}\<close>\<close>
  | SDone json                                         \<comment> \<open>the text's value is complete\<close>

fun deliver :: "json \<Rightarrow> frame list \<Rightarrow> pstate" where
  "deliver v [] = SDone v"
| "deliver v (FArr es # st) = SArrNext (es @ [v]) st"
| "deliver v (FObj ms k # st) = SObjNext (put ms k v) st"

fun value_step :: "frame list \<Rightarrow> token \<Rightarrow> pstate option" where
  "value_step st TLBrack = Some (SArrFirst st)"
| "value_step st TLBrace = Some (SObjFirst st)"
| "value_step st (TString s) = Some (deliver (JStr s) st)"
| "value_step st (TNumber n) = Some (deliver n st)"
| "value_step st TTrue = Some (deliver (JBool True) st)"
| "value_step st TFalse = Some (deliver (JBool False) st)"
| "value_step st TNull = Some (deliver JNull st)"
| "value_step st _ = None"

fun step :: "pstate \<Rightarrow> token \<Rightarrow> pstate option" where
  "step (SValue st) t = value_step st t"
| "step (SArrFirst st) t =
     (if t = TRBrack then Some (deliver (JArr []) st) else value_step (FArr [] # st) t)"
| "step (SArrNext es st) t =
     (if t = TComma then Some (SValue (FArr es # st))
      else if t = TRBrack then Some (deliver (JArr es) st)
      else None)"
| "step (SObjFirst st) t =
     (case t of
        TRBrace \<Rightarrow> Some (deliver (JObj []) st)
      | TString k \<Rightarrow> Some (SColon [] k st)
      | _ \<Rightarrow> None)"
| "step (SKey ms st) t = (case t of TString k \<Rightarrow> Some (SColon ms k st) | _ \<Rightarrow> None)"
| "step (SColon ms k st) t = (if t = TColon then Some (SValue (FObj ms k # st)) else None)"
| "step (SObjNext ms st) t =
     (if t = TComma then Some (SKey ms st)
      else if t = TRBrace then Some (deliver (JObj ms) st)
      else None)"
| "step (SDone v) t = None"

fun steps :: "pstate \<Rightarrow> token list \<Rightarrow> pstate option" where
  "steps s [] = Some s"
| "steps s (t # ts) = (case step s t of None \<Rightarrow> None | Some s' \<Rightarrow> steps s' ts)"

text \<open>\<open>JSON.parse(text)\<close>: the value, or the \<open>SyntaxError\<close> it throws.\<close>

definition JSON_parse :: "jsstring \<Rightarrow> js_error + json" where
  "JSON_parse text =
     (case tokenize text of
        None \<Rightarrow> Inl SyntaxError
      | Some ts \<Rightarrow>
          (case steps (SValue []) ts of
             Some (SDone v) \<Rightarrow> Inr v
           | _ \<Rightarrow> Inl SyntaxError))"

subsection \<open>\<open>JSON.stringify\<close>\<close>

definition hex_digit :: "nat \<Rightarrow> jschar" where
  "hex_digit n = (if n < 10 then of_nat (0x30 + n) else of_nat (0x61 + (n - 10)))"

definition unicode_escape :: "jschar \<Rightarrow> jsstring" where
  "unicode_escape c =
     (let n = unat c
      in [0x5C, 0x75, hex_digit (n div 4096), hex_digit (n div 256 mod 16),
          hex_digit (n div 16 mod 16), hex_digit (n mod 16)])"

definition is_high_surrogate :: "jschar \<Rightarrow> bool" where
  "is_high_surrogate c \<longleftrightarrow> 0xD800 \<le> c \<and> c \<le> 0xDBFF"

definition is_low_surrogate :: "jschar \<Rightarrow> bool" where
  "is_low_surrogate c \<longleftrightarrow> 0xDC00 \<le> c \<and> c \<le> 0xDFFF"

text \<open>
  The body of QuoteJSONString: the short escapes, \<open>\uXXXX\<close> for the other control
  characters and for a surrogate without its partner, every other code unit as it is.
\<close>

fun quote_body :: "jsstring \<Rightarrow> jsstring" where
  "quote_body [] = []"
| "quote_body (c # cs) =
     (if c = 0x08 then [0x5C, 0x62] @ quote_body cs
      else if c = 0x09 then [0x5C, 0x74] @ quote_body cs
      else if c = 0x0A then [0x5C, 0x6E] @ quote_body cs
      else if c = 0x0C then [0x5C, 0x66] @ quote_body cs
      else if c = 0x0D then [0x5C, 0x72] @ quote_body cs
      else if c = 0x22 then [0x5C, 0x22] @ quote_body cs
      else if c = 0x5C then [0x5C, 0x5C] @ quote_body cs
      else if c < 0x20 then unicode_escape c @ quote_body cs
      else if is_high_surrogate c then
        (case cs of
           [] \<Rightarrow> unicode_escape c
         | d # ds \<Rightarrow>
             if is_low_surrogate d then c # d # quote_body ds
             else unicode_escape c @ quote_body cs)
      else if is_low_surrogate c then unicode_escape c @ quote_body cs
      else c # quote_body cs)"

definition quote :: "jsstring \<Rightarrow> jsstring" where
  "quote s = 0x22 # quote_body s @ [0x22]"

text \<open>
  An object's own keys are enumerated with the array indices first, in ascending
  order, then the other keys in creation order. An array index is the canonical
  decimal form of a number below \<open>2^32 - 1\<close>.
\<close>

definition array_index :: "jsstring \<Rightarrow> nat option" where
  "array_index k =
     (if k \<noteq> [] \<and> list_all is_digit k \<and> (length k = 1 \<or> hd k \<noteq> 0x30)
         \<and> digits_value k < 2 ^ 32 - 1
      then Some (digits_value k) else None)"

definition own_properties :: "(jsstring \<times> 'a) list \<Rightarrow> (jsstring \<times> 'a) list" where
  "own_properties ms =
     sort_key (\<lambda>(k, v). the (array_index k)) (filter (\<lambda>(k, v). array_index k \<noteq> None) ms)
     @ filter (\<lambda>(k, v). array_index k = None) ms"

fun join :: "jsstring \<Rightarrow> jsstring list \<Rightarrow> jsstring" where
  "join sep [] = []"
| "join sep [x] = x"
| "join sep (x # y # ys) = x @ sep @ join sep (y # ys)"

text \<open>
  \<open>wrap opening closing gap indent parts\<close> lays out the serialised elements of an
  array or the members of an object: on one line when \<open>gap\<close> is empty, else one part
  per line, indented by \<open>indent @ gap\<close>.
\<close>

definition wrap :: "jschar \<Rightarrow> jschar \<Rightarrow> jsstring \<Rightarrow> jsstring \<Rightarrow> jsstring list \<Rightarrow> jsstring" where
  "wrap opening closing gap indent parts =
     (if parts = [] then [opening, closing]
      else if gap = [] then [opening] @ join [0x2C] parts @ [closing]
      else [opening, 0x0A] @ indent @ gap
           @ join ([0x2C, 0x0A] @ indent @ gap) parts
           @ [0x0A] @ indent @ [closing])"

text \<open>
  SerializeJSONProperty, for the values a JSON text can denote. \<open>gap\<close> is the
  indentation unit, \<open>indent\<close> the indentation of the enclosing line. The members of
  an object are serialised one by one and then put in the order of its own keys.
\<close>

fun serialize :: "jsstring \<Rightarrow> jsstring \<Rightarrow> json \<Rightarrow> jsstring"
  and serialize_elements :: "jsstring \<Rightarrow> jsstring \<Rightarrow> json list \<Rightarrow> jsstring list"
  and serialize_members ::
    "jsstring \<Rightarrow> jsstring \<Rightarrow> (jsstring \<times> json) list \<Rightarrow> (jsstring \<times> jsstring) list"
where
  "serialize gap indent JNull = js ''null''"
| "serialize gap indent (JBool b) = (if b then js ''true'' else js ''false'')"
| "serialize gap indent (JNum n) = (if isFinite n then Number_toString n else js ''null'')"
| "serialize gap indent (JStr s) = quote s"
| "serialize gap indent (JArr es) =
     wrap 0x5B 0x5D gap indent (serialize_elements gap (indent @ gap) es)"
| "serialize gap indent (JObj ms) =
     wrap 0x7B 0x7D gap indent
       (map snd (own_properties (serialize_members gap (indent @ gap) ms)))"
| "serialize_elements gap indent [] = []"
| "serialize_elements gap indent (e # es) =
     serialize gap indent e # serialize_elements gap indent es"
| "serialize_members gap indent [] = []"
| "serialize_members gap indent ((k, v) # ms) =
     (k, quote k @ [0x3A] @ (if gap = [] then [] else [0x20]) @ serialize gap indent v)
     # serialize_members gap indent ms"

text \<open>
  \<open>JSON.stringify(value, null, space)\<close> with a number for \<open>space\<close>: the gap is that
  many spaces, at most ten.
\<close>

definition JSON_stringify :: "json \<Rightarrow> nat \<Rightarrow> jsstring" where
  "JSON_stringify v space = serialize (replicate (min space 10) 0x20) [] v"

section \<open>\<open>URLSearchParams\<close>\<close>

text \<open>
  \<open>URLSearchParams.prototype.toString\<close> is the application/x-www-form-urlencoded
  serialiser: names and values are read as Unicode code points (a surrogate without
  its partner becomes U+FFFD), encoded in UTF-8, and every byte except the ASCII
  letters and digits and \<open>* - . _\<close> is percent-encoded; a space becomes \<open>+\<close>.
\<close>

fun code_points :: "jsstring \<Rightarrow> nat list" where
  "code_points [] = []"
| "code_points (c # cs) =
     (if is_high_surrogate c then
        (case cs of
           [] \<Rightarrow> [0xFFFD]
         | d # ds \<Rightarrow>
             if is_low_surrogate d
             then (0x10000 + (unat c - 0xD800) * 1024 + (unat d - 0xDC00)) # code_points ds
             else 0xFFFD # code_points cs)
      else if is_low_surrogate c then 0xFFFD # code_points cs
      else unat c # code_points cs)"

definition utf8 :: "nat \<Rightarrow> nat list" where
  "utf8 cp =
     (if cp < 0x80 then [cp]
      else if cp < 0x800 then [0xC0 + cp div 64, 0x80 + cp mod 64]
      else if cp < 0x10000 then [0xE0 + cp div 4096, 0x80 + cp div 64 mod 64, 0x80 + cp mod 64]
      else [0xF0 + cp div 262144, 0x80 + cp div 4096 mod 64, 0x80 + cp div 64 mod 64,
            0x80 + cp mod 64])"

definition upper_hex_digit :: "nat \<Rightarrow> jschar" where
  "upper_hex_digit n = (if n < 10 then of_nat (0x30 + n) else of_nat (0x41 + (n - 10)))"

definition urlencode_byte :: "nat \<Rightarrow> jsstring" where
  "urlencode_byte b =
     (if b = 0x20 then [0x2B]
      else if (0x30 \<le> b \<and> b \<le> 0x39) \<or> (0x41 \<le> b \<and> b \<le> 0x5A) \<or> (0x61 \<le> b \<and> b \<le> 0x7A)
              \<or> b = 0x2A \<or> b = 0x2D \<or> b = 0x2E \<or> b = 0x5F
      then [of_nat b]
      else [0x25, upper_hex_digit (b div 16), upper_hex_digit (b mod 16)])"

definition urlencode :: "jsstring \<Rightarrow> jsstring" where
  "urlencode s = concat (map urlencode_byte (concat (map utf8 (code_points s))))"

definition URLSearchParams_toString :: "(jsstring \<times> jsstring) list \<Rightarrow> jsstring" where
  "URLSearchParams_toString params =
     join [0x26] (map (\<lambda>(name, v). urlencode name @ [0x3D] @ urlencode v) params)"

section \<open>The transport client (\<open>src/lib/api.ts\<close>)\<close>

subsection \<open>The interfaces\<close>

record Finding =
  index :: "number option"
  type :: jsstring
  reason :: jsstring
  row :: "json option"

record Run =
  id' :: jsstring
  createdAt :: jsstring
  source :: "jsstring option"
  rowCount :: "number option"
  explain :: "bool option"
  coverage :: "jsstring list option"
  explanation :: "jsstring option"
  findings :: "Finding list option"

record ListRunsResponse =
  ok :: bool
  nextCursor :: "jsstring option"
  runs :: "Run list"

record GetRunResponse =
  ok :: bool
  run :: Run

record CreateRunResponse =
  ok :: bool
  runId :: jsstring

subsection \<open>Requests, responses and the outside world\<close>

datatype File = File (name: jsstring) (content: jsstring)

datatype form_value = FormString jsstring | FormFile File

datatype body = Text jsstring | FormData "(jsstring \<times> form_value) list"

record request =
  method' :: jsstring
  url :: jsstring
  headers :: "(jsstring \<times> jsstring) list"
  body :: "body option"

text \<open>
  The field \<open>method'\<close> of a request is the \<open>method\<close> of the source (\<open>GET\<close> when the
  source names none).

  A \<open>Response\<close> as \<open>fetch\<close> resolves it. \<open>json\<close> is what \<open>response.json()\<close>
  settles to: the decoded body at the type the caller declares for it, or the error of
  a body that is not JSON. \<open>blob\<close> is the body as \<open>response.blob()\<close> gives it.
\<close>

record 'a Response =
  status :: nat
  statusText :: jsstring
  json :: "js_error + 'a"
  blob :: jsstring

definition ok :: "'a Response \<Rightarrow> bool" where
  "ok response \<longleftrightarrow> 200 \<le> status response \<and> status response \<le> 299"

text \<open>
  The backend answers a request with a response, or not at all: then \<open>fetch\<close> rejects.
\<close>

type_synonym 'a backend = "request \<Rightarrow> js_error + 'a Response"

datatype dom_event =
    CreateObjectURL jsstring          \<comment> \<open>\<open>window.URL.createObjectURL(blob)\<close>\<close>
  | CreateElement jsstring            \<comment> \<open>\<open>document.createElement(tag)\<close>\<close>
  | AppendChild                       \<comment> \<open>\<open>document.body.appendChild(a)\<close>\<close>
  | Click jsstring jsstring           \<comment> \<open>\<open>a.click()\<close>: the blob behind \<open>a.href\<close> and \<open>a.download\<close>\<close>
  | RevokeObjectURL                   \<comment> \<open>\<open>window.URL.revokeObjectURL(url)\<close>\<close>
  | RemoveChild                       \<comment> \<open>\<open>document.body.removeChild(a)\<close>\<close>

datatype message = Message jsstring | EngineMessage

record Toast =
  title :: jsstring
  description :: "message option"
  variant :: "jsstring option"

text \<open>
  Everything the code does to its environment, in the order it does it: the requests
  sent, the calls on the document, the notifications shown and the navigations made.
\<close>

record world =
  network :: "request list"
  document :: "dom_event list"
  toasts :: "Toast list"
  navigations :: "jsstring list"

definition fetch :: "'a backend \<Rightarrow> request \<Rightarrow> world \<Rightarrow> (js_error + 'a Response) \<times> world" where
  "fetch backend req w = (backend req, w\<lparr>network := network w @ [req]\<rparr>)"

subsection \<open>Configuration\<close>

record env =
  VITE_API_URL :: "jsstring option"
  VITE_WATCHTOWER_SECRET :: "jsstring option"

text \<open>\<open>a || b\<close> on an optional string: \<open>b\<close> when \<open>a\<close> is undefined or empty.\<close>

definition or_default :: "jsstring option \<Rightarrow> jsstring \<Rightarrow> jsstring" where
  "or_default a b = (case a of None \<Rightarrow> b | Some s \<Rightarrow> if s = [] then b else s)"

definition API_URL :: "env \<Rightarrow> jsstring" where
  "API_URL e = or_default (VITE_API_URL e) (js ''http://localhost:8787/api/v1'')"

definition SECRET :: "env \<Rightarrow> jsstring" where
  "SECRET e = or_default (VITE_WATCHTOWER_SECRET e) (js ''dev-secret'')"

definition getHeaders :: "env \<Rightarrow> (jsstring \<times> jsstring) list" where
  "getHeaders e = [(js ''x-watchtower-secret'', SECRET e)]"

subsection \<open>The operations\<close>

text \<open>
  A parameter whose name is also a field of an interface carries a prime
  (\<open>runId'\<close>, \<open>explain'\<close>).
\<close>

definition listRuns ::
  "env \<Rightarrow> ListRunsResponse backend \<Rightarrow> number option \<Rightarrow> jsstring option \<Rightarrow> world
     \<Rightarrow> (js_error + ListRunsResponse) \<times> world" where
  "listRuns e backend limit cursor w =
     (let params = [];
          params = (case limit of
                      None \<Rightarrow> params
                    | Some n \<Rightarrow>
                        if ToBoolean n then params @ [(js ''limit'', Number_toString n)]
                        else params);
          params = (case cursor of
                      None \<Rightarrow> params
                    | Some c \<Rightarrow> if c \<noteq> [] then params @ [(js ''cursor'', c)] else params);
          url = API_URL e @ js ''/runs''
                @ (if URLSearchParams_toString params \<noteq> []
                   then js ''?'' @ URLSearchParams_toString params else []);
          (response, w) =
             fetch backend \<lparr>method' = js ''GET'', url = url, headers = getHeaders e, body = None\<rparr> w
      in case response of
           Inl err \<Rightarrow> (Inl err, w)
         | Inr response \<Rightarrow>
             if \<not> ok response
             then (Inl (Error (js ''Failed to list runs: '' @ statusText response)), w)
             else (json response, w))"

definition getRun ::
  "env \<Rightarrow> GetRunResponse backend \<Rightarrow> jsstring \<Rightarrow> world \<Rightarrow> (js_error + GetRunResponse) \<times> world" where
  "getRun e backend runId' w =
     (let (response, w) =
             fetch backend \<lparr>method' = js ''GET'', url = API_URL e @ js ''/runs/'' @ runId',
                            headers = getHeaders e, body = None\<rparr> w
      in case response of
           Inl err \<Rightarrow> (Inl err, w)
         | Inr response \<Rightarrow>
             if \<not> ok response
             then (Inl (Error (js ''Failed to get run: '' @ statusText response)), w)
             else (json response, w))"

definition createRunFromRows ::
  "env \<Rightarrow> CreateRunResponse backend \<Rightarrow> json list \<Rightarrow> bool option \<Rightarrow> world
     \<Rightarrow> (js_error + CreateRunResponse) \<times> world" where
  "createRunFromRows e backend rows explain' w =
     (let payload = JObj ((js ''rows'', JArr rows)
                          # (case explain' of None \<Rightarrow> [] | Some b \<Rightarrow> [(js ''explain'', JBool b)]));
          (response, w) =
             fetch backend \<lparr>method' = js ''POST'', url = API_URL e @ js ''/run'',
                            headers = getHeaders e @ [(js ''Content-Type'', js ''application/json'')],
                            body = Some (Text (JSON_stringify payload 0))\<rparr> w
      in case response of
           Inl err \<Rightarrow> (Inl err, w)
         | Inr response \<Rightarrow>
             if \<not> ok response
             then (Inl (Error (js ''Failed to create run: '' @ statusText response)), w)
             else (json response, w))"

definition createRunFromFile ::
  "env \<Rightarrow> CreateRunResponse backend \<Rightarrow> File \<Rightarrow> bool option \<Rightarrow> world
     \<Rightarrow> (js_error + CreateRunResponse) \<times> world" where
  "createRunFromFile e backend file explain' w =
     (let formData = [];
          formData = formData @ [(js ''file'', FormFile file)];
          formData = (case explain' of
                        None \<Rightarrow> formData
                      | Some b \<Rightarrow>
                          formData @ [(js ''explain'',
                                       FormString (if b then js ''true'' else js ''false''))]);
          (response, w) =
             fetch backend \<lparr>method' = js ''POST'', url = API_URL e @ js ''/run'',
                            headers = getHeaders e, body = Some (FormData formData)\<rparr> w
      in case response of
           Inl err \<Rightarrow> (Inl err, w)
         | Inr response \<Rightarrow>
             if \<not> ok response
             then (Inl (Error (js ''Failed to create run from file: '' @ statusText response)), w)
             else (json response, w))"

text \<open>
  \<open>exportRunCsv\<close> returns nothing; after the status check it reads the blob and drives
  the download through a temporary anchor element.
\<close>

definition exportRunCsv ::
  "env \<Rightarrow> 'a backend \<Rightarrow> jsstring \<Rightarrow> world \<Rightarrow> (js_error + unit) \<times> world" where
  "exportRunCsv e backend runId' w =
     (let (response, w) =
             fetch backend \<lparr>method' = js ''GET'',
                            url = API_URL e @ js ''/runs/'' @ runId' @ js ''/export.csv'',
                            headers = getHeaders e, body = None\<rparr> w
      in case response of
           Inl err \<Rightarrow> (Inl err, w)
         | Inr response \<Rightarrow>
             if \<not> ok response
             then (Inl (Error (js ''Failed to export CSV: '' @ statusText response)), w)
             else
               (Inr (),
                w\<lparr>document := document w @
                     [CreateObjectURL (blob response),
                      CreateElement (js ''a''),
                      AppendChild,
                      Click (blob response) (js ''run-'' @ runId' @ js ''.csv''),
                      RevokeObjectURL,
                      RemoveChild]\<rparr>))"

section \<open>The query hooks of the views\<close>

text \<open>
  The views fetch through the hooks of the query library (\<open>useQuery\<close>,
  \<open>useInfiniteQuery\<close>; the option \<open>initialPageParam\<close> is that of version 5). The
  model gives the result of a hook once its fetch has settled, and runs the query
  function once: how often the client repeats a failed run is configured outside these
  files. A query that is not \<open>enabled\<close> never runs its function: it holds no data and
  no error, and is not loading.
\<close>

record 'a query =
  data :: "'a option"
  isLoading :: bool
  error :: "js_error option"

definition useQuery ::
  "bool \<Rightarrow> (world \<Rightarrow> (js_error + 'a) \<times> world) \<Rightarrow> world \<Rightarrow> 'a query \<times> world" where
  "useQuery enabled queryFn w =
     (if \<not> enabled then (\<lparr>data = None, isLoading = False, error = None\<rparr>, w)
      else
        (case queryFn w of
           (Inl err, w') \<Rightarrow> (\<lparr>data = None, isLoading = False, error = Some err\<rparr>, w')
         | (Inr d, w') \<Rightarrow> (\<lparr>data = Some d, isLoading = False, error = None\<rparr>, w')))"

text \<open>
  An infinite query holds the pages fetched so far (none before the first page has
  arrived). \<open>hasNextPage\<close> is the library's test \<open>getNextPageParam(lastPage) != null\<close>;
  \<open>fetchNextPage\<close> calls the query function with that parameter and appends the page
  it returns, and does nothing when there is no next parameter. The field \<open>pages\<close> is
  the hook's \<open>data.pages\<close> (\<open>None\<close> while \<open>data\<close> is undefined) and \<open>isLoadingPages\<close>
  its \<open>isLoading\<close>.
\<close>

record 'p infinite_query =
  pages :: "'p list option"
  isLoadingPages :: bool
  hasNextPage :: bool
  isFetchingNextPage :: bool

definition useInfiniteQuery :: "('p \<Rightarrow> 'c option) \<Rightarrow> 'p list \<Rightarrow> 'p infinite_query" where
  "useInfiniteQuery getNextPageParam fetched =
     \<lparr>pages = (if fetched = [] then None else Some fetched),
      isLoadingPages = False,
      hasNextPage = (fetched \<noteq> [] \<and> getNextPageParam (last fetched) \<noteq> None),
      isFetchingNextPage = False\<rparr>"

definition fetchNextPage ::
  "('c option \<Rightarrow> world \<Rightarrow> (js_error + 'p) \<times> world) \<Rightarrow> ('p \<Rightarrow> 'c option) \<Rightarrow> 'c option
     \<Rightarrow> 'p list \<Rightarrow> world \<Rightarrow> 'p list \<times> world" where
  "fetchNextPage queryFn getNextPageParam initialPageParam fetched w =
     (if fetched = [] then
        (case queryFn initialPageParam w of
           (Inl err, w') \<Rightarrow> (fetched, w')
         | (Inr page, w') \<Rightarrow> ([page], w'))
      else
        (case getNextPageParam (last fetched) of
           None \<Rightarrow> (fetched, w)
         | Some pageParam \<Rightarrow>
             (case queryFn (Some pageParam) w of
                (Inl err, w') \<Rightarrow> (fetched, w')
              | (Inr page, w') \<Rightarrow> (fetched @ [page], w'))))"

section \<open>Notifications and navigation\<close>

definition toast :: "Toast \<Rightarrow> world \<Rightarrow> world" where
  "toast t w = w\<lparr>toasts := toasts w @ [t]\<rparr>"

definition navigate :: "jsstring \<Rightarrow> world \<Rightarrow> world" where
  "navigate path w = w\<lparr>navigations := navigations w @ [path]\<rparr>"

text \<open>\<open>error.message\<close>; every error of the model is an instance of \<open>Error\<close>.\<close>

fun error_message :: "js_error \<Rightarrow> message" where
  "error_message (Error m) = Message m"
| "error_message SyntaxError = EngineMessage"
| "error_message TypeError = EngineMessage"

text \<open>The truth value of a JSON value in a condition.\<close>

fun truthy :: "json \<Rightarrow> bool" where
  "truthy JNull = False"
| "truthy (JBool b) = b"
| "truthy (JNum n) = ToBoolean n"
| "truthy (JStr s) = (s \<noteq> [])"
| "truthy (JArr es) = True"
| "truthy (JObj ms) = True"

section \<open>The run detail view (\<open>src/pages/RunDetail.tsx\<close>)\<close>

text \<open>
  What the view renders: the spinner, the error panel with its message, or the detail
  page: the short identifier, the explanation card if there is one, the line that
  counts the findings, and the rows of the findings table (\<open>None\<close> for the
  \<open>No findings\<close> paragraph). A row's last cell is the formatted payload, or \<open>None\<close> for
  the dash. The creation date, printed in the browser's locale, is left out.
\<close>

record finding_row =
  index_cell :: number
  type_cell :: jsstring
  reason_cell :: jsstring
  row_cell :: "jsstring option"

datatype RunDetail_view =
    Loader
  | ErrorPanel message
  | Detail (shortId: jsstring) (explanation_card: "jsstring option")
      (findings_summary: jsstring) (findings_table: "finding_row list option")

definition formatJson :: "json \<Rightarrow> jsstring" where
  "formatJson obj =
     (case obj of
        JStr s \<Rightarrow>
          (case JSON_parse s of
             Inr parsed \<Rightarrow> JSON_stringify parsed 2
           | Inl err \<Rightarrow> s)
      | _ \<Rightarrow> JSON_stringify obj 2)"

definition finding_cells :: "nat \<Rightarrow> Finding \<Rightarrow> finding_row" where
  "finding_cells idx finding =
     \<lparr>index_cell = (case index finding of Some i \<Rightarrow> i | None \<Rightarrow> Number (int idx)),
      type_cell = type finding,
      reason_cell = reason finding,
      row_cell = (case row finding of
                    None \<Rightarrow> None
                  | Some r \<Rightarrow> if truthy r then Some (formatJson r) else None)\<rparr>"

definition RunDetail_render :: "GetRunResponse query \<Rightarrow> RunDetail_view" where
  "RunDetail_render q =
     (let run = map_option GetRunResponse.run (data q)
      in if isLoading q then Loader
         else
           (case (error q, run) of
              (Some err, _) \<Rightarrow> ErrorPanel (error_message err)
            | (None, None) \<Rightarrow> ErrorPanel (Message (js ''Failed to load run details''))
            | (None, Some r) \<Rightarrow>
                Detail
                  (take 8 (id' r))
                  (case (explain r, explanation r) of
                     (Some True, Some text) \<Rightarrow> if text \<noteq> [] then Some text else None
                   | _ \<Rightarrow> None)
                  (Number_toString
                     (Number (case findings r of None \<Rightarrow> 0 | Some fs \<Rightarrow> int (length fs)))
                   @ js '' issue''
                   @ (if map_option length (findings r) \<noteq> Some 1 then js ''s'' else [])
                   @ js '' detected'')
                  (case findings r of
                     None \<Rightarrow> None
                   | Some fs \<Rightarrow>
                       if length fs = 0 then None
                       else Some (map (\<lambda>(idx, finding). finding_cells idx finding)
                                      (enumerate 0 fs)))))"

text \<open>The query function of the view and the view on entry.\<close>

definition RunDetail_queryFn ::
  "env \<Rightarrow> GetRunResponse backend \<Rightarrow> jsstring option \<Rightarrow> world
     \<Rightarrow> (js_error + GetRunResponse) \<times> world" where
  "RunDetail_queryFn e backend runId' w =
     (case runId' of
        None \<Rightarrow> (Inl (Error (js ''No run ID provided'')), w)
      | Some r \<Rightarrow>
          if r = [] then (Inl (Error (js ''No run ID provided'')), w)
          else getRun e backend r w)"

definition RunDetail ::
  "env \<Rightarrow> GetRunResponse backend \<Rightarrow> jsstring option \<Rightarrow> world \<Rightarrow> RunDetail_view \<times> world" where
  "RunDetail e backend runId' w =
     (let (q, w) = useQuery (runId' \<noteq> None \<and> runId' \<noteq> Some [])
                     (RunDetail_queryFn e backend runId') w
      in (RunDetail_render q, w))"

definition RunDetail_handleExport ::
  "env \<Rightarrow> 'a backend \<Rightarrow> jsstring option \<Rightarrow> world \<Rightarrow> world" where
  "RunDetail_handleExport e backend runId' w =
     (case runId' of
        None \<Rightarrow> w
      | Some r \<Rightarrow>
          if r = [] then w
          else
            (case exportRunCsv e backend r w of
               (Inr u, w) \<Rightarrow>
                 toast \<lparr>title = js ''CSV exported successfully'', description = None,
                        variant = None\<rparr> w
             | (Inl err, w) \<Rightarrow>
                 toast \<lparr>title = js ''Failed to export CSV'',
                        description = Some (error_message err),
                        variant = Some (js ''destructive'')\<rparr> w))"

section \<open>The run list view (the \<open>Home\<close> page)\<close>

text \<open>
  The state the component keeps with \<open>useState\<close> (\<open>file'\<close> is the source's
  \<open>file\<close>).
\<close>

record Home_state =
  explain :: bool
  file' :: "File option"
  jsonText :: jsstring
  isCreating :: bool

text \<open>\<open>Array.prototype.flatMap\<close> with a callback that returns arrays.\<close>

definition flatMap :: "('a \<Rightarrow> 'b list) \<Rightarrow> 'a list \<Rightarrow> 'b list" where
  "flatMap f xs = foldl (\<lambda>acc x. acc @ f x) [] xs"

text \<open>The options of the infinite query.\<close>

definition Home_queryFn ::
  "env \<Rightarrow> ListRunsResponse backend \<Rightarrow> jsstring option \<Rightarrow> world
     \<Rightarrow> (js_error + ListRunsResponse) \<times> world" where
  "Home_queryFn e backend pageParam w = listRuns e backend (Some (Number 20)) pageParam w"

definition getNextPageParam :: "ListRunsResponse \<Rightarrow> jsstring option" where
  "getNextPageParam lastPage = nextCursor lastPage"

definition initialPageParam :: "jsstring option" where
  "initialPageParam = None"

text \<open>
  What the card of recent runs renders: the spinner, the \<open>No runs yet\<close> paragraph, or
  the table of runs, followed by the \<open>Load more\<close> button (with its \<open>disabled\<close> flag)
  when there is one.
\<close>

datatype Home_view =
    Spinner
  | NoRunsYet
  | RunsTable (table_rows: "Run list") (load_more: "bool option")

definition Home_runs :: "ListRunsResponse infinite_query \<Rightarrow> Run list" where
  "Home_runs q = (case pages q of None \<Rightarrow> [] | Some ps \<Rightarrow> flatMap runs ps)"

definition Home_render :: "ListRunsResponse infinite_query \<Rightarrow> Home_view" where
  "Home_render q =
     (if isLoadingPages q then Spinner
      else if length (Home_runs q) = 0 then NoRunsYet
      else RunsTable (Home_runs q)
             (if hasNextPage q then Some (isFetchingNextPage q) else None))"

text \<open>
  The view over the pages fetched so far, and a click on \<open>Load more\<close>.
\<close>

definition Home :: "ListRunsResponse list \<Rightarrow> Home_view" where
  "Home fetched = Home_render (useInfiniteQuery getNextPageParam fetched)"

definition Home_loadMore ::
  "env \<Rightarrow> ListRunsResponse backend \<Rightarrow> ListRunsResponse list \<Rightarrow> world
     \<Rightarrow> ListRunsResponse list \<times> world" where
  "Home_loadMore e backend fetched w =
     fetchNextPage (Home_queryFn e backend) getNextPageParam initialPageParam fetched w"

subsection \<open>The handlers\<close>

definition handleFileUpload ::
  "env \<Rightarrow> CreateRunResponse backend \<Rightarrow> Home_state \<Rightarrow> world \<Rightarrow> Home_state \<times> world" where
  "handleFileUpload e backend st w =
     (case file' st of
        None \<Rightarrow>
          (st, toast \<lparr>title = js ''No file selected'', description = None,
                      variant = Some (js ''destructive'')\<rparr> w)
      | Some f \<Rightarrow>
          (let st = st\<lparr>isCreating := True\<rparr>;
               w = (case createRunFromFile e backend f (Some (explain st)) w of
                      (Inr result, w) \<Rightarrow>
                        navigate (js ''/run/'' @ runId result)
                          (toast \<lparr>title = js ''Run created successfully'', description = None,
                                  variant = None\<rparr> w)
                    | (Inl err, w) \<Rightarrow>
                        toast \<lparr>title = js ''Failed to create run'',
                               description = Some (error_message err),
                               variant = Some (js ''destructive'')\<rparr> w)
           in (st\<lparr>isCreating := False\<rparr>, w)))"

definition handleJsonSubmit ::
  "env \<Rightarrow> CreateRunResponse backend \<Rightarrow> Home_state \<Rightarrow> world \<Rightarrow> Home_state \<times> world" where
  "handleJsonSubmit e backend st w =
     (if trim (jsonText st) = [] then
        (st, toast \<lparr>title = js ''No JSON provided'', description = None,
                    variant = Some (js ''destructive'')\<rparr> w)
      else
        (let attempt =
               (case JSON_parse (jsonText st) of
                  Inl err \<Rightarrow> (Inl err, st, w)
                | Inr parsed \<Rightarrow>
                    (case parsed of
                       JArr rows \<Rightarrow>
                         (let st = st\<lparr>isCreating := True\<rparr>;
                              (result, w) = createRunFromRows e backend rows (Some (explain st)) w
                          in (result, st, w))
                     | _ \<Rightarrow> (Inl (Error (js ''JSON must be an array of rows'')), st, w)));
             (st, w) =
               (case attempt of
                  (Inr result, st, w) \<Rightarrow>
                    (st, navigate (js ''/run/'' @ runId result)
                           (toast \<lparr>title = js ''Run created successfully'', description = None,
                                   variant = None\<rparr> w))
                | (Inl err, st, w) \<Rightarrow>
                    (st, toast \<lparr>title = js ''Failed to create run'',
                                description = Some (error_message err),
                                variant = Some (js ''destructive'')\<rparr> w))
         in (st\<lparr>isCreating := False\<rparr>, w)))"

definition handleExport :: "env \<Rightarrow> 'a backend \<Rightarrow> jsstring \<Rightarrow> world \<Rightarrow> world" where
  "handleExport e backend runId' w =
     (case exportRunCsv e backend runId' w of
        (Inr u, w) \<Rightarrow>
          toast \<lparr>title = js ''CSV exported successfully'', description = None,
                 variant = None\<rparr> w
      | (Inl err, w) \<Rightarrow>
          toast \<lparr>title = js ''Failed to export CSV'',
                 description = Some (error_message err),
                 variant = Some (js ''destructive'')\<rparr> w)"

section \<open>Sample environments\<close>

text \<open>
  A backend that answers every request with the same response, a backend that cannot
  be reached, the configuration with no variable set, and the world before anything
  was done to it.
\<close>

definition respond :: "'a Response \<Rightarrow> 'a backend" where
  "respond r req = Inr r"

definition unreachable :: "'a backend" where
  "unreachable req = Inl TypeError"

definition defaults :: env where
  "defaults = \<lparr>VITE_API_URL = None, VITE_WATCHTOWER_SECRET = None\<rparr>"

definition fresh :: world where
  "fresh = \<lparr>network = [], document = [], toasts = [], navigations = []\<rparr>"

text \<open>Responses: a missing resource, a success that carries a value, and a success
  whose body is not JSON.\<close>

definition not_found :: "'a Response" where
  "not_found = \<lparr>status = 404, statusText = js ''Not Found'', json = Inl SyntaxError, blob = []\<rparr>"

definition ok_with :: "'a \<Rightarrow> 'a Response" where
  "ok_with a = \<lparr>status = 200, statusText = js ''OK'', json = Inr a, blob = js ''id,type''\<rparr>"

definition ok_not_json :: "'a Response" where
  "ok_not_json = \<lparr>status = 200, statusText = js ''OK'', json = Inl SyntaxError, blob = js ''oops''\<rparr>"

text \<open>A run, a list of findings and a settled query of the detail view.\<close>

definition sample_run :: Run where
  "sample_run = \<lparr>id' = js ''0123456789abcdef'', createdAt = js ''2024-05-01T10:00:00Z'',
     source = None, rowCount = None, explain = Some True, coverage = None,
     explanation = Some [], findings = None\<rparr>"

definition sample_findings :: "Finding list" where
  "sample_findings =
     [\<lparr>index = Some (Number 7), type = js ''duplicate'', reason = js ''same id'', row = None\<rparr>,
      \<lparr>index = None, type = js ''outlier'', reason = js ''amount'', row = None\<rparr>,
      \<lparr>index = Some (Number 0), type = js ''outlier'', reason = js ''amount'', row = None\<rparr>]"

definition sample_detail :: "GetRunResponse query" where
  "sample_detail =
     \<lparr>data = Some \<lparr>GetRunResponse.ok = True,
                    run = sample_run\<lparr>findings := Some sample_findings\<rparr>\<rparr>,
      isLoading = False, error = None\<rparr>"

text \<open>
  Pages of the run list: one with a cursor, the final one, one with a cursor and no
  runs, and one that lists the same run twice.
\<close>

definition first_page :: ListRunsResponse where
  "first_page = \<lparr>ListRunsResponse.ok = True, nextCursor = Some (js ''c1''), runs = [sample_run]\<rparr>"

definition last_page :: ListRunsResponse where
  "last_page = \<lparr>ListRunsResponse.ok = True, nextCursor = None,
                 runs = [sample_run\<lparr>id' := js ''fedcba9876543210''\<rparr>]\<rparr>"

definition empty_page_with_cursor :: ListRunsResponse where
  "empty_page_with_cursor = \<lparr>ListRunsResponse.ok = True, nextCursor = Some (js ''c1''), runs = []\<rparr>"

definition repeating_page :: ListRunsResponse where
  "repeating_page = \<lparr>ListRunsResponse.ok = True, nextCursor = None,
                      runs = [sample_run, sample_run]\<rparr>"

section \<open>Observations used by the properties\<close>

text \<open>Whether a rendered run list offers the \<open>Load more\<close> button.\<close>

definition offers_load_more :: "Home_view \<Rightarrow> bool" where
  "offers_load_more v = (case v of RunsTable rs (Some disabled) \<Rightarrow> True | _ \<Rightarrow> False)"

text \<open>
  Pages are pairwise disjoint when no run identifier of one page occurs in another
  page.
\<close>

fun pages_disjoint :: "ListRunsResponse list \<Rightarrow> bool" where
  "pages_disjoint [] = True"
| "pages_disjoint (p # ps) =
     ((\<forall>q\<in>set ps. set (map id' (runs p)) \<inter> set (map id' (runs q)) = {}) \<and> pages_disjoint ps)"

section \<open>Evaluation and auxiliary facts\<close>

lemma replicate_two: "replicate 2 x = [x, x]"
  by (simp add: numeral_2_eq_2)

text \<open>
  Numbers are evaluated with the defining equations at numerals only, so that no
  equation is unfolded on a variable.
\<close>

lemma shortest_from_numeral:
  "shortest_from (numeral k) p m e =
     (case candidate m e p of
        Some c \<Rightarrow> c
      | None \<Rightarrow> shortest_from (pred_numeral k) (Suc p) m e)"
  by (simp add: numeral_eq_Suc)

lemmas double_eval =
  to_double_def [of "numeral d" for d] to_double_def [of "Suc 0"] to_double_def [of 0]
  bits.simps [of "numeral n" for n] bits.simps [of "Suc 0"] bits.simps [of 0]
  digits10.simps [of "numeral n" for n] digits10.simps [of "Suc 0"] digits10.simps [of 0]
  decimal_fraction_def binary_fraction_def scale_def at_least_one_def
  floor_log2_def floor_log10_def round_half_even_def Let_def numeral_2_eq_2 [symmetric]

lemmas number_eval =
  Number_def Number_toString_def ToBoolean_def isFinite_def shortest_def shortest_from_numeral
  candidate_def [of "numeral m" for m] candidate_def [of "Suc 0"]
  settle_def [of _ _ _ "numeral s" for s] settle_def [of _ _ _ "Suc 0"]
  format_digits_def [of "numeral s" for s] format_digits_def [of "Suc 0"]
  decimal.simps [of "numeral n" for n] decimal.simps [of "Suc 0"] decimal.simps [of 0]
  strip_zeros.simps [of "numeral n" for n] strip_zeros.simps [of "Suc 0"]
  strip_zeros.simps [of 0]
  double_eval

lemma number_one:
  "Number_toString (Decimal False (Suc 0) 0) = js ''1''"
  "isFinite (Decimal False (Suc 0) 0)"
  by (simp_all add: number_eval js_def)

lemma number_two:
  "Number_toString (Decimal False 2 0) = js ''2''"
  "isFinite (Decimal False 2 0)"
  by (simp_all add: number_eval js_def)

lemma number_one_point_zero:
  "Number_toString (Decimal False 10 (- 1)) = js ''1''"
  "isFinite (Decimal False 10 (- 1))"
  by (simp_all add: number_eval js_def)

lemma number_twenty:
  "Number_toString (Number 20) = js ''20''"
  "ToBoolean (Number 20)"
  by (simp_all add: number_eval js_def)

lemma number_one_and_a_half:
  "Number_toString (Decimal False 15 (- 1)) = js ''1.5''"
  "ToBoolean (Decimal False 15 (- 1))"
  by (simp_all add: number_eval js_def)

lemma number_ten_to_21:
  "Number_toString (Decimal False (Suc 0) 21) = js ''1e+21''"
  "ToBoolean (Decimal False (Suc 0) 21)"
  by (simp_all add: number_eval js_def)

lemma number_falsy:
  "\<not> ToBoolean NaN" "\<not> ToBoolean (Number 0)" "\<not> ToBoolean (Decimal True 0 0)"
  by (simp_all add: number_eval)

lemma number_infinity:
  "Number_toString (Infinity False) = js ''Infinity''" "ToBoolean (Infinity False)"
  by (simp_all add: Number_toString_def ToBoolean_def)

lemmas number_facts = number_one number_two number_one_point_zero number_twenty
  number_one_and_a_half number_ten_to_21 number_falsy number_infinity

lemmas json_eval =
  JSON_parse_def tokenize.simps is_json_whitespace_def lex_number_def int_part_def
  frac_part_def exp_part_def exponent_value_def is_digit_def digits_value_def
  JSON_stringify_def wrap_def own_properties_def array_index_def quote_def
  is_high_surrogate_def is_low_surrogate_def replicate_two number_facts js_def

text \<open>
  A text made of white space only is no JSON text: \<open>JSON.parse\<close> skips only the four
  JSON white-space characters, and the other white space of \<open>trim\<close> starts no token.
\<close>

lemma js_whitespace_not_digit:
  assumes "is_js_whitespace c"
  shows "\<not> is_digit c"
proof
  assume d: "is_digit c"
  then have le: "c \<le> 0x39" and ge: "0x30 \<le> c"
    by (simp_all add: is_digit_def)
  have "\<not> (0x2000 \<le> c)"
  proof
    assume "0x2000 \<le> c"
    then have "(0x2000 :: jschar) \<le> 0x39" using le by (rule order_trans)
    then show False by simp
  qed
  with assms le ge show False
    by (auto simp: is_js_whitespace_def)
qed

lemma js_whitespace_no_token:
  assumes "is_js_whitespace c" "\<not> is_json_whitespace c"
  shows "c \<noteq> 0x7B" "c \<noteq> 0x7D" "c \<noteq> 0x5B" "c \<noteq> 0x5D" "c \<noteq> 0x3A" "c \<noteq> 0x2C"
    "c \<noteq> 0x22" "c \<noteq> 0x74" "c \<noteq> 0x66" "c \<noteq> 0x6E" "c \<noteq> 0x2D"
  using assms
  by (auto simp: is_js_whitespace_def is_json_whitespace_def)

lemma tokenize_whitespace:
  "list_all is_js_whitespace t \<Longrightarrow> tokenize t = None \<or> tokenize t = Some []"
proof (induction t)
  case Nil
  then show ?case by (simp add: tokenize.simps)
next
  case (Cons c cs)
  then have c: "is_js_whitespace c" and IH: "tokenize cs = None \<or> tokenize cs = Some []"
    by simp_all
  show ?case
  proof (cases "is_json_whitespace c")
    case True
    with IH show ?thesis by (simp add: tokenize.simps)
  next
    case False
    note nt = js_whitespace_no_token [OF c False] and nd = js_whitespace_not_digit [OF c]
    from nd have "c \<noteq> 0x30"
      by (auto simp: is_digit_def)
    with nt nd have "lex_number (c # cs) = None"
      by (simp add: lex_number_def int_part_def Let_def)
    with False nt show ?thesis
      by (simp add: tokenize.simps js_def)
  qed
qed

lemma trim_empty:
  assumes "trim s = []"
  shows "list_all is_js_whitespace s"
proof -
  from assms have all: "\<forall>x\<in>set (dropWhile is_js_whitespace s). is_js_whitespace x"
    by (simp add: trim_def)
  have "dropWhile is_js_whitespace s = []"
  proof (rule ccontr)
    assume ne: "dropWhile is_js_whitespace s \<noteq> []"
    then have "\<not> is_js_whitespace (hd (dropWhile is_js_whitespace s))"
      by (rule hd_dropWhile)
    with all ne show False by simp
  qed
  then show ?thesis
    by (simp add: list_all_iff)
qed

lemma JSON_parse_blank: "trim t = [] \<Longrightarrow> JSON_parse t = Inl SyntaxError"
  using tokenize_whitespace [OF trim_empty, of t] by (auto simp: JSON_parse_def)

text \<open>Every operation of the transport client sends one request and checks its status.\<close>

lemma listRuns_attempt:
  "\<exists>req. network (snd (listRuns e backend limit cursor w)) = network w @ [req] \<and>
     (\<forall>r. backend req = Inr r \<longrightarrow>
        (\<not> ok r \<longrightarrow> fst (listRuns e backend limit cursor w)
                      = Inl (Error (js ''Failed to list runs: '' @ statusText r))) \<and>
        (ok r \<longrightarrow> fst (listRuns e backend limit cursor w) = json r))"
  by (auto simp: listRuns_def fetch_def Let_def split: sum.splits)

lemma getRun_attempt:
  "\<exists>req. network (snd (getRun e backend runId' w)) = network w @ [req] \<and>
     (\<forall>r. backend req = Inr r \<longrightarrow>
        (\<not> ok r \<longrightarrow> fst (getRun e backend runId' w)
                      = Inl (Error (js ''Failed to get run: '' @ statusText r))) \<and>
        (ok r \<longrightarrow> fst (getRun e backend runId' w) = json r))"
  by (auto simp: getRun_def fetch_def Let_def split: sum.splits)

lemma createRunFromRows_attempt:
  "\<exists>req. network (snd (createRunFromRows e backend rows' explain' w)) = network w @ [req] \<and>
     (\<forall>r. backend req = Inr r \<longrightarrow>
        (\<not> ok r \<longrightarrow> fst (createRunFromRows e backend rows' explain' w)
                      = Inl (Error (js ''Failed to create run: '' @ statusText r))) \<and>
        (ok r \<longrightarrow> fst (createRunFromRows e backend rows' explain' w) = json r))"
  by (auto simp: createRunFromRows_def fetch_def Let_def split: sum.splits)

lemma createRunFromFile_attempt:
  "\<exists>req. network (snd (createRunFromFile e backend f explain' w)) = network w @ [req] \<and>
     (\<forall>r. backend req = Inr r \<longrightarrow>
        (\<not> ok r \<longrightarrow> fst (createRunFromFile e backend f explain' w)
                      = Inl (Error (js ''Failed to create run from file: '' @ statusText r))) \<and>
        (ok r \<longrightarrow> fst (createRunFromFile e backend f explain' w) = json r))"
  by (auto simp: createRunFromFile_def fetch_def Let_def split: sum.splits)

lemma exportRunCsv_attempt:
  "\<exists>req. network (snd (exportRunCsv e backend runId' w)) = network w @ [req] \<and>
     (\<forall>r. backend req = Inr r \<longrightarrow>
        (\<not> ok r \<longrightarrow> fst (exportRunCsv e backend runId' w)
                      = Inl (Error (js ''Failed to export CSV: '' @ statusText r))) \<and>
        (ok r \<longrightarrow> fst (exportRunCsv e backend runId' w) = Inr ()))"
  by (auto simp: exportRunCsv_def fetch_def Let_def split: sum.splits)

text \<open>The URL of a \<open>listRuns\<close> request in closed form.\<close>

lemma urlencode_limit: "urlencode (js ''limit'') = js ''limit''"
  and urlencode_cursor: "urlencode (js ''cursor'') = js ''cursor''"
  by (simp_all add: js_def urlencode_def utf8_def urlencode_byte_def is_high_surrogate_def
      is_low_surrogate_def)

lemma snd_listRuns:
  "network (snd (listRuns e backend limit cursor w)) =
     network w @
     [\<lparr>method' = js ''GET'',
       url = API_URL e @ js ''/runs'' @
         (let params = (case limit of None \<Rightarrow> []
                        | Some n \<Rightarrow>
                            if ToBoolean n then [(js ''limit'', Number_toString n)] else [])
                       @ (case cursor of None \<Rightarrow> []
                          | Some c \<Rightarrow> if c \<noteq> [] then [(js ''cursor'', c)] else [])
          in if URLSearchParams_toString params \<noteq> []
             then js ''?'' @ URLSearchParams_toString params else []),
       headers = getHeaders e, body = None\<rparr>]"
  by (simp add: listRuns_def fetch_def Let_def split: sum.splits option.splits prod.splits)

lemma query_strings:
  "URLSearchParams_toString [] = []"
  "URLSearchParams_toString [(js ''limit'', v)] = js ''limit='' @ urlencode v"
  "URLSearchParams_toString [(js ''cursor'', c)] = js ''cursor='' @ urlencode c"
  "URLSearchParams_toString [(js ''limit'', v), (js ''cursor'', c)]
     = js ''limit='' @ urlencode v @ js ''&cursor='' @ urlencode c"
  by (simp_all add: URLSearchParams_toString_def urlencode_limit urlencode_cursor)
     (simp_all add: js_def)

lemma js_nonempty: "js ''limit='' \<noteq> []" "js ''cursor='' \<noteq> []"
  by (simp_all add: js_def)

lemma js_question: "js ''?'' @ js ''limit='' @ s = js ''?limit='' @ s"
  "js ''?'' @ js ''cursor='' @ s = js ''?cursor='' @ s"
  by (simp_all add: js_def)

lemma listRuns_request_url:
  "map url (network (snd (listRuns e backend limit cursor w))) =
     map url (network w) @
     [API_URL e @ js ''/runs'' @
        (if (limit \<noteq> None \<and> ToBoolean (the limit)) \<and> (cursor \<noteq> None \<and> cursor \<noteq> Some [])
         then js ''?limit='' @ urlencode (Number_toString (the limit))
              @ js ''&cursor='' @ urlencode (the cursor)
         else if limit \<noteq> None \<and> ToBoolean (the limit)
         then js ''?limit='' @ urlencode (Number_toString (the limit))
         else if cursor \<noteq> None \<and> cursor \<noteq> Some []
         then js ''?cursor='' @ urlencode (the cursor)
         else [])]"
  by (cases limit; cases cursor)
     (simp_all add: snd_listRuns Let_def query_strings js_nonempty js_question)

lemmas url_eval = urlencode_def utf8_def urlencode_byte_def is_high_surrogate_def
  is_low_surrogate_def upper_hex_digit_def number_facts API_URL_def
  SECRET_def or_default_def getHeaders_def defaults_def fresh_def js_def

text \<open>The run list: flattening, the rendered view and a click on \<open>Load more\<close>.\<close>

lemma flatMap_concat: "flatMap f xs = concat (map f xs)"
proof -
  have "foldl (\<lambda>acc x. acc @ f x) a xs = a @ concat (map f xs)" for a
    by (induction xs arbitrary: a) simp_all
  then show ?thesis by (simp add: flatMap_def)
qed

lemma Home_runs_concat:
  "Home_runs (useInfiniteQuery getNextPageParam fetched) = concat (map runs fetched)"
  by (simp add: Home_runs_def useInfiniteQuery_def flatMap_concat)

lemma Home_view:
  "Home fetched =
     (if concat (map runs fetched) = [] then NoRunsYet
      else RunsTable (concat (map runs fetched))
             (if fetched \<noteq> [] \<and> nextCursor (last fetched) \<noteq> None then Some False else None))"
proof -
  have fields: "\<not> isLoadingPages (useInfiniteQuery getNextPageParam fetched)"
    "hasNextPage (useInfiniteQuery getNextPageParam fetched)
       \<longleftrightarrow> fetched \<noteq> [] \<and> nextCursor (last fetched) \<noteq> None"
    "\<not> isFetchingNextPage (useInfiniteQuery getNextPageParam fetched)"
    by (simp_all add: useInfiniteQuery_def getNextPageParam_def)
  show ?thesis
    by (simp add: Home_def Home_render_def Home_runs_concat fields)
qed

lemma Home_loadMore_next:
  assumes "fetched \<noteq> []"
  shows "Home_loadMore e backend fetched w =
     (case nextCursor (last fetched) of
        None \<Rightarrow> (fetched, w)
      | Some c \<Rightarrow>
          (case listRuns e backend (Some (Number 20)) (Some c) w of
             (Inl err, w') \<Rightarrow> (fetched, w')
           | (Inr page, w') \<Rightarrow> (fetched @ [page], w')))"
  using assms
  by (simp add: Home_loadMore_def fetchNextPage_def Home_queryFn_def getNextPageParam_def
      split: option.splits)

lemma distinct_pages:
  assumes "pages_disjoint ps" and "\<forall>p\<in>set ps. distinct (map id' (runs p))"
  shows "distinct (map id' (concat (map runs ps)))"
  using assms
proof (induction ps)
  case Nil
  then show ?case by simp
next
  case (Cons p ps)
  then have "distinct (map id' (concat (map runs ps)))"
    and "distinct (map id' (runs p))"
    and "\<forall>q\<in>set ps. set (map id' (runs p)) \<inter> set (map id' (runs q)) = {}"
    by simp_all
  then show ?case
    by (fastforce simp: map_concat)
qed

section \<open>Properties of the transport client\<close>

text \<open>
  Claim C1, as stated: every operation of the transport client throws an error whose
  message contains the status text when the response status is not 2xx, makes exactly
  one request, and throws nothing when the status is 2xx.

  The last part fails. \<open>listRuns\<close> returns \<open>response.json()\<close>, which rejects when the
  body of a 200 response is not JSON: the operation then throws that error.
\<close>

theorem listRuns_throws_on_success_status:
  "ok (ok_not_json :: ListRunsResponse Response)
   \<and> listRuns defaults (respond ok_not_json) None None fresh
     = (Inl SyntaxError,
        fresh\<lparr>network := [\<lparr>method' = js ''GET'', url = js ''http://localhost:8787/api/v1/runs'',
                            headers = [(js ''x-watchtower-secret'', js ''dev-secret'')],
                            body = None\<rparr>]\<rparr>)"
  by (simp add: ok_def ok_not_json_def listRuns_def respond_def fetch_def fresh_def defaults_def
      API_URL_def SECRET_def or_default_def getHeaders_def URLSearchParams_toString_def js_def)

text \<open>
  Claim C1, amended: every operation sends exactly one request, whatever the backend
  answers. If the response status is not 2xx, the operation throws an error whose
  message is a fixed prefix followed by the status text. If the status is 2xx, the
  status check throws nothing: \<open>listRuns\<close>, \<open>getRun\<close>, \<open>createRunFromRows\<close> and
  \<open>createRunFromFile\<close> settle as \<open>response.json()\<close> does (to the decoded body, or to the
  error of a body that is not JSON), and \<open>exportRunCsv\<close> returns normally.
\<close>

theorem transport_status_policy:
  "(\<exists>req. network (snd (listRuns e bl limit cursor w)) = network w @ [req] \<and>
     (\<forall>r. bl req = Inr r \<longrightarrow>
        (\<not> ok r \<longrightarrow> fst (listRuns e bl limit cursor w)
                      = Inl (Error (js ''Failed to list runs: '' @ statusText r))) \<and>
        (ok r \<longrightarrow> fst (listRuns e bl limit cursor w) = json r)))
   \<and> (\<exists>req. network (snd (getRun e bg runId' w)) = network w @ [req] \<and>
     (\<forall>r. bg req = Inr r \<longrightarrow>
        (\<not> ok r \<longrightarrow> fst (getRun e bg runId' w)
                      = Inl (Error (js ''Failed to get run: '' @ statusText r))) \<and>
        (ok r \<longrightarrow> fst (getRun e bg runId' w) = json r)))
   \<and> (\<exists>req. network (snd (createRunFromRows e br rows' explain' w)) = network w @ [req] \<and>
     (\<forall>r. br req = Inr r \<longrightarrow>
        (\<not> ok r \<longrightarrow> fst (createRunFromRows e br rows' explain' w)
                      = Inl (Error (js ''Failed to create run: '' @ statusText r))) \<and>
        (ok r \<longrightarrow> fst (createRunFromRows e br rows' explain' w) = json r)))
   \<and> (\<exists>req. network (snd (createRunFromFile e bf f explain' w)) = network w @ [req] \<and>
     (\<forall>r. bf req = Inr r \<longrightarrow>
        (\<not> ok r \<longrightarrow> fst (createRunFromFile e bf f explain' w)
                      = Inl (Error (js ''Failed to create run from file: '' @ statusText r))) \<and>
        (ok r \<longrightarrow> fst (createRunFromFile e bf f explain' w) = json r)))
   \<and> (\<exists>req. network (snd (exportRunCsv e bx runId' w)) = network w @ [req] \<and>
     (\<forall>r. bx req = Inr r \<longrightarrow>
        (\<not> ok r \<longrightarrow> fst (exportRunCsv e bx runId' w)
                      = Inl (Error (js ''Failed to export CSV: '' @ statusText r))) \<and>
        (ok r \<longrightarrow> fst (exportRunCsv e bx runId' w) = Inr ())))"
  by (intro conjI listRuns_attempt getRun_attempt createRunFromRows_attempt
      createRunFromFile_attempt exportRunCsv_attempt)

text \<open>
  The amended claim C1 at a 404 response for each operation, and at a 200 response
  for \<open>createRunFromRows\<close> and \<open>exportRunCsv\<close>.
\<close>

theorem transport_status_policy_witness:
  "\<not> ok (not_found :: ListRunsResponse Response)
   \<and> fst (listRuns defaults (respond not_found) (Some (Number 20)) None fresh)
       = Inl (Error (js ''Failed to list runs: Not Found''))
   \<and> fst (getRun defaults (respond not_found) (js ''r1'') fresh)
       = Inl (Error (js ''Failed to get run: Not Found''))
   \<and> fst (createRunFromRows defaults (respond not_found) [] (Some False) fresh)
       = Inl (Error (js ''Failed to create run: Not Found''))
   \<and> fst (createRunFromFile defaults (respond not_found) (File (js ''a.csv'') (js ''x,y''))
            (Some False) fresh)
       = Inl (Error (js ''Failed to create run from file: Not Found''))
   \<and> fst (exportRunCsv defaults (respond (not_found :: unit Response)) (js ''r1'') fresh)
       = Inl (Error (js ''Failed to export CSV: Not Found''))
   \<and> ok (ok_with \<lparr>CreateRunResponse.ok = True, runId = js ''r1''\<rparr>)
   \<and> fst (createRunFromRows defaults
            (respond (ok_with \<lparr>CreateRunResponse.ok = True, runId = js ''r1''\<rparr>))
            [] (Some False) fresh)
       = Inr \<lparr>CreateRunResponse.ok = True, runId = js ''r1''\<rparr>
   \<and> fst (exportRunCsv defaults (respond (ok_with ())) (js ''r1'') fresh) = Inr ()"
  using
    transport_status_policy [of defaults "respond not_found" "Some (Number 20)" None fresh
      "respond not_found" "js ''r1''" "respond not_found" "[]" "Some False"
      "respond not_found" "File (js ''a.csv'') (js ''x,y'')" "respond not_found"]
    transport_status_policy [of defaults "respond not_found" "Some (Number 20)" None fresh
      "respond not_found" "js ''r1''"
      "respond (ok_with \<lparr>CreateRunResponse.ok = True, runId = js ''r1''\<rparr>)" "[]" "Some False"
      "respond not_found" "File (js ''a.csv'') (js ''x,y'')" "respond (ok_with ())"]
  by (auto simp: respond_def ok_def not_found_def ok_with_def js_def)

text \<open>
  Claim C6, as stated: the URL of a \<open>listRuns\<close> request carries the \<open>limit\<close> parameter
  if and only if a limit was supplied, and the \<open>cursor\<close> parameter if and only if a
  cursor was supplied.

  The guards are \<open>if (limit)\<close> and \<open>if (cursor)\<close>: a limit of 0 and an empty cursor are
  supplied and still left out. With both, the URL has no query string.
\<close>

theorem listRuns_falsy_arguments_dropped:
  "map url (network (snd (listRuns defaults unreachable (Some (Number 0)) (Some []) fresh)))
     = [js ''http://localhost:8787/api/v1/runs'']"
  by (simp add: listRuns_request_url url_eval)

text \<open>
  Claim C6, amended: the URL of a \<open>listRuns\<close> request is the base URL followed by
  \<open>/runs\<close> and a query string that carries \<open>limit\<close> if and only if a limit was supplied
  and is truthy (neither zero nor NaN), and \<open>cursor\<close> if and only if a cursor was
  supplied and is not empty; when neither is carried, the URL has no query string at
  all. The value of \<open>limit\<close> is \<open>limit.toString()\<close> and the value of \<open>cursor\<close> is the
  cursor, both form-urlencoded.
\<close>

theorem listRuns_query_string:
  "url (last (network (snd (listRuns e backend limit cursor w)))) =
     API_URL e @ js ''/runs'' @
       (if (limit \<noteq> None \<and> ToBoolean (the limit)) \<and> (cursor \<noteq> None \<and> cursor \<noteq> Some [])
        then js ''?limit='' @ urlencode (Number_toString (the limit))
             @ js ''&cursor='' @ urlencode (the cursor)
        else if limit \<noteq> None \<and> ToBoolean (the limit)
        then js ''?limit='' @ urlencode (Number_toString (the limit))
        else if cursor \<noteq> None \<and> cursor \<noteq> Some []
        then js ''?cursor='' @ urlencode (the cursor)
        else [])"
proof -
  have "url (last (network (snd (listRuns e backend limit cursor w))))
        = last (map url (network (snd (listRuns e backend limit cursor w))))"
    by (simp add: last_map snd_listRuns)
  then show ?thesis
    by (simp only: listRuns_request_url last_snoc)
qed

text \<open>
  The amended claim C6 at a limit of 20 with and without a cursor, at the limits 1.5,
  \<open>10^21\<close> (printed \<open>1e+21\<close>, sent as \<open>1e%2B21\<close>) and Infinity, at the falsy limits NaN
  and negative zero, and with no argument.
\<close>

theorem listRuns_query_string_witness:
  "url (last (network (snd (listRuns defaults unreachable (Some (Number 20))
                               (Some (js ''a b'')) fresh))))
     = js ''http://localhost:8787/api/v1/runs?limit=20&cursor=a+b''
   \<and> url (last (network (snd (listRuns defaults unreachable (Some (Number 20)) None fresh))))
     = js ''http://localhost:8787/api/v1/runs?limit=20''
   \<and> url (last (network (snd (listRuns defaults unreachable (Some (Decimal False 15 (- 1)))
                               None fresh))))
     = js ''http://localhost:8787/api/v1/runs?limit=1.5''
   \<and> url (last (network (snd (listRuns defaults unreachable (Some (Decimal False 1 21))
                               None fresh))))
     = js ''http://localhost:8787/api/v1/runs?limit=1e%2B21''
   \<and> url (last (network (snd (listRuns defaults unreachable (Some (Infinity False))
                               None fresh))))
     = js ''http://localhost:8787/api/v1/runs?limit=Infinity''
   \<and> url (last (network (snd (listRuns defaults unreachable (Some NaN)
                               (Some (js ''a b'')) fresh))))
     = js ''http://localhost:8787/api/v1/runs?cursor=a+b''
   \<and> url (last (network (snd (listRuns defaults unreachable (Some (Decimal True 0 0))
                               None fresh))))
     = js ''http://localhost:8787/api/v1/runs''
   \<and> url (last (network (snd (listRuns defaults unreachable None None fresh))))
     = js ''http://localhost:8787/api/v1/runs''"
  using
    listRuns_query_string [of defaults unreachable "Some (Number 20)" "Some (js ''a b'')" fresh]
    listRuns_query_string [of defaults unreachable "Some (Number 20)" None fresh]
    listRuns_query_string [of defaults unreachable "Some (Decimal False 15 (- 1))" None fresh]
    listRuns_query_string [of defaults unreachable "Some (Decimal False 1 21)" None fresh]
    listRuns_query_string [of defaults unreachable "Some (Infinity False)" None fresh]
    listRuns_query_string [of defaults unreachable "Some NaN" "Some (js ''a b'')" fresh]
    listRuns_query_string [of defaults unreachable "Some (Decimal True 0 0)" None fresh]
    listRuns_query_string [of defaults unreachable None None fresh]
  by (simp add: url_eval)

text \<open>
  Claim C8: when the backend answers the export request with a status that is not
  2xx, \<open>exportRunCsv\<close> throws before any download step (the document is left as it
  was: no blob is read, no anchor is created), and the export handler of either view
  shows the failure notification, not the success one.
\<close>

theorem export_failure:
  assumes "backend \<lparr>method' = js ''GET'',
                     url = API_URL e @ js ''/runs/'' @ runId' @ js ''/export.csv'',
                     headers = getHeaders e, body = None\<rparr> = Inr response"
    and "\<not> ok response"
  shows "fst (exportRunCsv e backend runId' w)
           = Inl (Error (js ''Failed to export CSV: '' @ statusText response))
         \<and> document (snd (exportRunCsv e backend runId' w)) = document w
         \<and> document (handleExport e backend runId' w) = document w
         \<and> toasts (handleExport e backend runId' w)
             = toasts w @
               [\<lparr>title = js ''Failed to export CSV'',
                 description = Some (Message (js ''Failed to export CSV: '' @ statusText response)),
                 variant = Some (js ''destructive'')\<rparr>]
         \<and> (runId' \<noteq> [] \<longrightarrow>
              RunDetail_handleExport e backend (Some runId') w = handleExport e backend runId' w)"
  using assms
  by (simp add: exportRunCsv_def handleExport_def RunDetail_handleExport_def fetch_def toast_def)

text \<open>Claim C8 at a run the backend does not know: the response is 404 Not Found.\<close>

theorem export_failure_witness:
  "\<not> ok (not_found :: unit Response)
   \<and> fst (exportRunCsv defaults (respond (not_found :: unit Response)) (js ''missing'') fresh)
       = Inl (Error (js ''Failed to export CSV: Not Found''))
   \<and> document (handleExport defaults (respond (not_found :: unit Response)) (js ''missing'') fresh)
       = []
   \<and> toasts (RunDetail_handleExport defaults (respond (not_found :: unit Response))
               (Some (js ''missing'')) fresh)
       = [\<lparr>title = js ''Failed to export CSV'',
           description = Some (Message (js ''Failed to export CSV: Not Found'')),
           variant = Some (js ''destructive'')\<rparr>]"
  using export_failure [of "respond (not_found :: unit Response)" defaults "js ''missing''"
      not_found fresh]
  by (simp add: respond_def ok_def not_found_def fresh_def js_def)

section \<open>Properties of the run list view\<close>

text \<open>
  Claim C2, as stated: the run list offers \<open>Load more\<close> if and only if the most
  recently fetched page included a \<open>nextCursor\<close>, and each \<open>Load more\<close> action requests
  the next page with exactly that cursor.

  The first part fails: the button is rendered inside the table branch only. When the
  pages fetched so far hold no run, the view shows \<open>No runs yet\<close> and no button, also
  when the last page carried a cursor.
\<close>

theorem Home_empty_page_hides_load_more:
  "nextCursor empty_page_with_cursor = Some (js ''c1'')
   \<and> Home [empty_page_with_cursor] = NoRunsYet
   \<and> \<not> offers_load_more (Home [empty_page_with_cursor])"
  by (simp add: Home_view empty_page_with_cursor_def offers_load_more_def)

text \<open>
  Claim C2, amended: the run list offers \<open>Load more\<close> if and only if the most recently
  fetched page included a \<open>nextCursor\<close> and the pages fetched so far hold at least one
  run. A \<open>Load more\<close> action calls \<open>listRuns\<close> with limit 20 and exactly the
  \<open>nextCursor\<close> of the last page as its cursor argument, and appends the page it
  returns; when the last page has no \<open>nextCursor\<close> it fetches nothing.
\<close>

theorem Home_pagination:
  "(offers_load_more (Home fetched) \<longleftrightarrow>
      fetched \<noteq> [] \<and> nextCursor (last fetched) \<noteq> None \<and> concat (map runs fetched) \<noteq> [])
   \<and> (fetched \<noteq> [] \<longrightarrow> nextCursor (last fetched) = Some c \<longrightarrow>
        Home_loadMore e backend fetched w =
          (case listRuns e backend (Some (Number 20)) (Some c) w of
             (Inl err, w') \<Rightarrow> (fetched, w')
           | (Inr page, w') \<Rightarrow> (fetched @ [page], w')))
   \<and> (fetched \<noteq> [] \<longrightarrow> nextCursor (last fetched) = None \<longrightarrow>
        Home_loadMore e backend fetched w = (fetched, w))"
  by (simp add: Home_view Home_loadMore_next offers_load_more_def)

text \<open>
  The amended claim C2 on two pages: after the first page the button is offered and a
  click requests \<open>cursor=c1\<close>; after the final page it is not, and a call fetches
  nothing.
\<close>

theorem Home_pagination_witness:
  "offers_load_more (Home [first_page])
   \<and> fst (Home_loadMore defaults (respond (ok_with last_page)) [first_page] fresh)
       = [first_page, last_page]
   \<and> map url (network (snd (Home_loadMore defaults (respond (ok_with last_page)) [first_page] fresh)))
       = [js ''http://localhost:8787/api/v1/runs?limit=20&cursor=c1'']
   \<and> \<not> offers_load_more (Home [first_page, last_page])
   \<and> Home_loadMore defaults (respond (ok_with last_page)) [first_page, last_page] fresh
       = ([first_page, last_page], fresh)"
  using Home_pagination [of "[first_page]" "js ''c1''" defaults "respond (ok_with last_page)" fresh]
    Home_pagination [of "[first_page, last_page]" "js ''c1''" defaults
      "respond (ok_with last_page)" fresh]
    listRuns_attempt [of defaults "respond (ok_with last_page)" "Some (Number 20)"
      "Some (js ''c1'')" fresh]
    listRuns_request_url [of defaults "respond (ok_with last_page)" "Some (Number 20)"
      "Some (js ''c1'')" fresh]
  by (auto simp: first_page_def last_page_def respond_def ok_with_def ok_def url_eval
      split: prod.splits sum.splits)

text \<open>
  Claim C3, as stated: the flattened sequence of runs is the concatenation of the
  pages' \<open>runs\<close> arrays in fetch order, and has no duplicate run identifier when the
  pages are pairwise disjoint.

  The second part fails: the view removes no duplicate, so a page that lists a run
  twice shows it twice, and a single page is disjoint from every other page.
\<close>

theorem flattened_runs_duplicate_within_page:
  "pages_disjoint [repeating_page]
   \<and> \<not> distinct (map id' (Home_runs (useInfiniteQuery getNextPageParam [repeating_page])))"
  by (simp add: Home_runs_concat repeating_page_def)

text \<open>
  Claim C3, amended: the flattened sequence of runs is the concatenation of the
  pages' \<open>runs\<close> arrays in fetch order, each page in its own order; when the pages are
  pairwise disjoint and no page lists a run identifier twice, the flattened sequence
  has no duplicate run identifier.
\<close>

theorem flattened_runs:
  "Home_runs (useInfiniteQuery getNextPageParam fetched) = concat (map runs fetched)
   \<and> (pages_disjoint fetched \<longrightarrow> (\<forall>p\<in>set fetched. distinct (map id' (runs p))) \<longrightarrow>
        distinct (map id' (Home_runs (useInfiniteQuery getNextPageParam fetched))))"
  by (simp add: Home_runs_concat distinct_pages)

text \<open>The amended claim C3 on two disjoint pages of one run each.\<close>

theorem flattened_runs_witness:
  "pages_disjoint [first_page, last_page]
   \<and> distinct (map id' (runs first_page))
   \<and> distinct (map id' (runs last_page))
   \<and> Home_runs (useInfiniteQuery getNextPageParam [first_page, last_page])
       = [sample_run, sample_run\<lparr>id' := js ''fedcba9876543210''\<rparr>]
   \<and> distinct (map id' (Home_runs (useInfiniteQuery getNextPageParam [first_page, last_page])))"
  using flattened_runs [of "[first_page, last_page]"]
  by (simp add: first_page_def last_page_def sample_run_def js_def)

text \<open>
  Claim C4: when the pasted text parses as JSON to a value that is not an array, the
  submission fails in the client with the error \<open>JSON must be an array of rows\<close>, shown
  as the failure notification, and no request is sent: \<open>createRunFromRows\<close>, which
  sends one request whenever it is called, is not called.
\<close>

theorem handleJsonSubmit_not_array:
  assumes "JSON_parse (jsonText st) = Inr parsed" and "\<forall>rows'. parsed \<noteq> JArr rows'"
  shows "handleJsonSubmit e backend st w =
           (st\<lparr>isCreating := False\<rparr>,
            w\<lparr>toasts := toasts w @
                 [\<lparr>title = js ''Failed to create run'',
                   description = Some (Message (js ''JSON must be an array of rows'')),
                   variant = Some (js ''destructive'')\<rparr>]\<rparr>)
         \<and> network (snd (handleJsonSubmit e backend st w)) = network w"
proof -
  from assms(1) have ne: "trim (jsonText st) \<noteq> []"
    using JSON_parse_blank [of "jsonText st"] by auto
  from assms(2) ne assms(1) have
    "handleJsonSubmit e backend st w =
           (st\<lparr>isCreating := False\<rparr>,
            w\<lparr>toasts := toasts w @
                 [\<lparr>title = js ''Failed to create run'',
                   description = Some (Message (js ''JSON must be an array of rows'')),
                   variant = Some (js ''destructive'')\<rparr>]\<rparr>)"
    by (cases parsed) (simp_all add: handleJsonSubmit_def toast_def)
  then show ?thesis
    by simp
qed

text \<open>Claim C4 at the pasted text \<open>{"a":1}\<close>.\<close>

theorem handleJsonSubmit_not_array_witness:
  "JSON_parse (js ''{\"a\":1}'') = Inr (JObj [(js ''a'', JNum (Decimal False 1 0))])
   \<and> handleJsonSubmit defaults unreachable
        \<lparr>explain = True, file' = None, jsonText = js ''{\"a\":1}'', isCreating = False\<rparr> fresh
     = (\<lparr>explain = True, file' = None, jsonText = js ''{\"a\":1}'', isCreating = False\<rparr>,
        fresh\<lparr>toasts :=
                [\<lparr>title = js ''Failed to create run'',
                  description = Some (Message (js ''JSON must be an array of rows'')),
                  variant = Some (js ''destructive'')\<rparr>]\<rparr>)
   \<and> network (snd (handleJsonSubmit defaults unreachable
        \<lparr>explain = True, file' = None, jsonText = js ''{\"a\":1}'', isCreating = False\<rparr> fresh))
     = []"
proof -
  have parse: "JSON_parse (js ''{\"a\":1}'') = Inr (JObj [(js ''a'', JNum (Decimal False 1 0))])"
    by (simp add: json_eval)
  from parse
    handleJsonSubmit_not_array [of
      "\<lparr>explain = True, file' = None, jsonText = js ''{\"a\":1}'', isCreating = False\<rparr>"
      "JObj [(js ''a'', JNum (Decimal False 1 0))]" defaults unreachable fresh]
  show ?thesis
    by (simp add: fresh_def)
qed

section \<open>Properties of the run detail view\<close>

text \<open>
  Claim C5: the row formatter parses a string payload as JSON and serialises the
  parsed value again with an indentation of two spaces; when the parse fails it gives
  the string itself; a payload that is no string is serialised as it is. So, for a
  finding whose row is the string \<open>{"x":1}\<close>, it gives an opening brace, the line
  \<open>"x": 1\<close> indented by two spaces, and a closing brace; and for a finding whose row
  is the string of the four letters o, o, p, s, which is not JSON, it gives that
  string unchanged. The table cell of such a finding shows the same.
\<close>

theorem formatJson_parses_or_falls_back:
  "(\<forall>parsed. JSON_parse s = Inr parsed \<longrightarrow> formatJson (JStr s) = JSON_stringify parsed 2)
   \<and> (\<forall>err. JSON_parse s = Inl err \<longrightarrow> formatJson (JStr s) = s)
   \<and> ((\<forall>t. obj \<noteq> JStr t) \<longrightarrow> formatJson obj = JSON_stringify obj 2)
   \<and> formatJson (JStr (js ''{\"x\":1}'')) = js ''{\<newline>  \"x\": 1\<newline>}''
   \<and> formatJson (JStr (js ''oops'')) = js ''oops''
   \<and> row_cell (finding_cells idx (finding\<lparr>row := Some (JStr (js ''{\"x\":1}''))\<rparr>))
       = Some (js ''{\<newline>  \"x\": 1\<newline>}'')
   \<and> row_cell (finding_cells idx (finding\<lparr>row := Some (JStr (js ''oops''))\<rparr>))
       = Some (js ''oops'')"
proof -
  have general: "(\<forall>parsed. JSON_parse s = Inr parsed \<longrightarrow> formatJson (JStr s) = JSON_stringify parsed 2)
      \<and> (\<forall>err. JSON_parse s = Inl err \<longrightarrow> formatJson (JStr s) = s)
      \<and> ((\<forall>t. obj \<noteq> JStr t) \<longrightarrow> formatJson obj = JSON_stringify obj 2)"
    by (cases obj) (simp_all add: formatJson_def)
  have object: "JSON_parse (js ''{\"x\":1}'') = Inr (JObj [(js ''x'', JNum (Decimal False 1 0))])"
    by (simp add: json_eval)
  have printed: "JSON_stringify (JObj [(js ''x'', JNum (Decimal False 1 0))]) 2
                   = js ''{\<newline>  \"x\": 1\<newline>}''"
    by (simp add: json_eval)
  have raw: "JSON_parse (js ''oops'') = Inl SyntaxError"
    by (simp add: json_eval)
  have examples: "formatJson (JStr (js ''{\"x\":1}'')) = js ''{\<newline>  \"x\": 1\<newline>}''"
    "formatJson (JStr (js ''oops'')) = js ''oops''"
    using object printed raw by (simp_all add: formatJson_def)
  have nonempty: "js ''{\"x\":1}'' \<noteq> []" "js ''oops'' \<noteq> []"
    by (simp_all add: js_def)
  show ?thesis
    using general by (simp add: examples finding_cells_def nonempty)
qed

text \<open>
  Claim C5 at the second finding of a list, and at three more payloads: the string
  \<open>[1.0,2]\<close>, which is printed as the array of 1 and 2 on a line each, the string
  \<open>[1,]\<close>, which is not JSON and stays as it is, and a payload that is the array of 1
  and 2 itself.
\<close>

theorem formatJson_parses_or_falls_back_witness:
  "row_cell (finding_cells 1
      \<lparr>index = None, type = js ''outlier'', reason = js ''amount'',
        row = Some (JStr (js ''{\"x\":1}''))\<rparr>)
     = Some (js ''{\<newline>  \"x\": 1\<newline>}'')
   \<and> row_cell (finding_cells 1
      \<lparr>index = None, type = js ''outlier'', reason = js ''amount'',
        row = Some (JStr (js ''oops''))\<rparr>)
     = Some (js ''oops'')
   \<and> JSON_parse (js ''[1.0,2]'')
     = Inr (JArr [JNum (Decimal False 10 (- 1)), JNum (Decimal False 2 0)])
   \<and> formatJson (JStr (js ''[1.0,2]'')) = js ''[\<newline>  1,\<newline>  2\<newline>]''
   \<and> JSON_parse (js ''[1,]'') = Inl SyntaxError
   \<and> formatJson (JStr (js ''[1,]'')) = js ''[1,]''
   \<and> formatJson (JArr [JNum (Decimal False 1 0), JNum (Decimal False 2 0)])
     = js ''[\<newline>  1,\<newline>  2\<newline>]''"
proof -
  have array: "JSON_parse (js ''[1.0,2]'')
                 = Inr (JArr [JNum (Decimal False 10 (- 1)), JNum (Decimal False 2 0)])"
    by (simp add: json_eval)
  have printed: "JSON_stringify (JArr [JNum (Decimal False 10 (- 1)), JNum (Decimal False 2 0)]) 2
                   = js ''[\<newline>  1,\<newline>  2\<newline>]''"
    "JSON_stringify (JArr [JNum (Decimal False 1 0), JNum (Decimal False 2 0)]) 2
                   = js ''[\<newline>  1,\<newline>  2\<newline>]''"
    by (simp_all add: json_eval)
  have broken: "JSON_parse (js ''[1,]'') = Inl SyntaxError"
    by (simp add: json_eval)
  from array printed broken
    formatJson_parses_or_falls_back [of "js ''[1.0,2]''"
      "JArr [JNum (Decimal False 1 0), JNum (Decimal False 2 0)]" 1
      "\<lparr>index = None, type = js ''outlier'', reason = js ''amount'', row = None\<rparr>"]
    formatJson_parses_or_falls_back [of "js ''[1,]''" JNull 1
      "\<lparr>index = None, type = js ''outlier'', reason = js ''amount'', row = None\<rparr>"]
  show ?thesis
    by simp
qed

text \<open>
  Claim C7, as stated: entered with an absent or empty run identifier, the detail view
  fails at once with a \<open>no identifier provided\<close> condition and sends no \<open>getRun\<close>
  request.

  No request is sent, but the condition is not the one stated. The query is enabled
  only for a non-empty identifier, so its query function, which holds the error
  \<open>No run ID provided\<close>, is not run: the view has no data and no error, and shows the
  error panel with its fallback message.
\<close>

theorem RunDetail_absent_id_message:
  "RunDetail defaults unreachable None fresh
     = (ErrorPanel (Message (js ''Failed to load run details'')), fresh)
   \<and> fst (RunDetail defaults unreachable None fresh)
     \<noteq> ErrorPanel (Message (js ''No run ID provided''))"
  by (simp add: RunDetail_def useQuery_def RunDetail_render_def js_def)

text \<open>
  Claim C7, amended: entered with an absent or empty run identifier, the detail view
  sends no request and shows the error panel with the message
  \<open>Failed to load run details\<close>. The error \<open>No run ID provided\<close> is what the query
  function would throw, also without a request, if the disabled query ran it.
\<close>

theorem RunDetail_without_id:
  assumes "runId' = None \<or> runId' = Some []"
  shows "RunDetail e backend runId' w
           = (ErrorPanel (Message (js ''Failed to load run details'')), w)
         \<and> RunDetail_queryFn e backend runId' w = (Inl (Error (js ''No run ID provided'')), w)"
  using assms
  by (auto simp: RunDetail_def useQuery_def RunDetail_render_def RunDetail_queryFn_def)

text \<open>The amended claim C7 at the empty identifier.\<close>

theorem RunDetail_without_id_witness:
  "RunDetail defaults unreachable (Some []) fresh
     = (ErrorPanel (Message (js ''Failed to load run details'')), fresh)
   \<and> network (snd (RunDetail defaults unreachable (Some []) fresh)) = []"
  using RunDetail_without_id [of "Some []" defaults unreachable fresh]
  by (simp add: fresh_def)

text \<open>
  Claim C9: for a run that was fetched, the detail view renders the explanation card
  if and only if \<open>run.explain\<close> is true and \<open>run.explanation\<close> is a present, non-empty
  string; the card then shows that string.
\<close>

theorem explanation_card_iff:
  assumes "data q = Some d" and "error q = None" and "\<not> isLoading q"
  shows "\<exists>sid summary table card.
           RunDetail_render q = Detail sid card summary table
           \<and> (card \<noteq> None \<longleftrightarrow>
                Run.explain (run d) = Some True
                \<and> (\<exists>text. explanation (run d) = Some text \<and> text \<noteq> []))
           \<and> (card \<noteq> None \<longrightarrow> card = explanation (run d))"
  using assms
  by (auto simp: RunDetail_render_def split: option.splits bool.splits)

text \<open>
  Claim C9 at a run with \<open>explain\<close> true: no card for the empty explanation, the card
  for a non-empty one.
\<close>

theorem explanation_card_iff_witness:
  "explanation_card (RunDetail_render
      \<lparr>data = Some \<lparr>GetRunResponse.ok = True, run = sample_run\<rparr>, isLoading = False,
        error = None\<rparr>) = None
   \<and> explanation_card (RunDetail_render
      \<lparr>data = Some \<lparr>GetRunResponse.ok = True,
                     run = sample_run\<lparr>explanation := Some (js ''Two duplicates'')\<rparr>\<rparr>,
        isLoading = False, error = None\<rparr>) = Some (js ''Two duplicates'')"
  using
    explanation_card_iff [of
      "\<lparr>data = Some \<lparr>GetRunResponse.ok = True, run = sample_run\<rparr>, isLoading = False,
        error = None\<rparr>" "\<lparr>GetRunResponse.ok = True, run = sample_run\<rparr>"]
    explanation_card_iff [of
      "\<lparr>data = Some \<lparr>GetRunResponse.ok = True,
                     run = sample_run\<lparr>explanation := Some (js ''Two duplicates'')\<rparr>\<rparr>,
        isLoading = False, error = None\<rparr>"
      "\<lparr>GetRunResponse.ok = True, run = sample_run\<lparr>explanation := Some (js ''Two duplicates'')\<rparr>\<rparr>"]
  by (auto simp: sample_run_def js_def)

text \<open>
  Claim C10: in the findings table of a fetched run, the finding at zero-based
  position \<open>i\<close> shows \<open>i\<close> as its index when its \<open>index\<close> field is absent, and the value
  of the field when it is present, 0 included.
\<close>

theorem finding_index_fallback:
  assumes "data q = Some d" and "error q = None" and "\<not> isLoading q"
    and "findings (run d) = Some fs" and "i < length fs"
  shows "\<exists>cells. findings_table (RunDetail_render q) = Some cells
           \<and> length cells = length fs
           \<and> index_cell (cells ! i)
               = (case index (fs ! i) of None \<Rightarrow> Number (int i) | Some n \<Rightarrow> n)"
  using assms
  by (auto simp: RunDetail_render_def nth_enumerate_eq finding_cells_def split: option.splits)

text \<open>
  Claim C10 on three findings whose \<open>index\<close> fields are 7, absent and 0: the table
  shows 7, 1 and 0.
\<close>

theorem finding_index_fallback_witness:
  "index_cell (the (findings_table (RunDetail_render sample_detail)) ! 0) = Number 7
   \<and> index_cell (the (findings_table (RunDetail_render sample_detail)) ! 1) = Number 1
   \<and> index_cell (the (findings_table (RunDetail_render sample_detail)) ! 2) = Number 0"
  using
    finding_index_fallback [of sample_detail
      "\<lparr>GetRunResponse.ok = True, run = sample_run\<lparr>findings := Some sample_findings\<rparr>\<rparr>"
      sample_findings 0]
    finding_index_fallback [of sample_detail
      "\<lparr>GetRunResponse.ok = True, run = sample_run\<lparr>findings := Some sample_findings\<rparr>\<rparr>"
      sample_findings 1]
    finding_index_fallback [of sample_detail
      "\<lparr>GetRunResponse.ok = True, run = sample_run\<lparr>findings := Some sample_findings\<rparr>\<rparr>"
      sample_findings 2]
  by (auto simp: sample_detail_def sample_findings_def)

end
